theory Spec2Isabelle
  imports Complex_Main "HOL-Library.Multiset" "HOL-Library.Product_Lexorder" "HOL-Library.Char_ord" "HOL-Library.List_Lexorder"
begin

section \<open>Shared model of the Express handlers and of the PostgreSQL client\<close>

text \<open>
  The repository is a set of Express route handlers over a PostgreSQL pool. A handler is
  modelled as a function from the request and the database state to the response and the
  new state. A request body and a query string are JavaScript objects: maps from a
  property name to a string, where a property that is absent reads \<open>undefined\<close>.
\<close>

type_synonym jsobj = "string \<rightharpoonup> string"

text \<open>JavaScript truthiness of a string-or-undefined: \<open>undefined\<close> and \<open>""\<close> are falsy.\<close>

definition truthy :: "string option \<Rightarrow> bool" where
  "truthy v = (case v of None \<Rightarrow> False | Some s \<Rightarrow> s \<noteq> [])"

text \<open>\<open>x || null\<close>: a falsy value is sent to the database as NULL.\<close>

definition or_null :: "string option \<Rightarrow> string option" where
  "or_null v = (if truthy v then v else None)"

text \<open>
  An exception caught by a handler: the handlers look at its \<open>code\<close> property only (the
  SQLSTATE of a driver error; other errors have none).
\<close>

datatype js_error = JsError (code: "string option")

text \<open>
  \<open>res.json(x)\<close> answers 200 with the body \<open>x\<close>; \<open>res.status(n).json(...)\<close> and
  \<open>res.status(n).send(...)\<close> answer the status \<open>n\<close> with an error body.
\<close>

datatype 'a response = Json 'a | Status nat

text \<open>
  The database as one checked-out client sees it: the committed tables, the working copy
  of the tables while a transaction is open (\<open>BEGIN\<close> ... \<open>COMMIT\<close>/\<open>ROLLBACK\<close>), and the
  serial sequence of the table the handlers insert into. A sequence is not transactional:
  a value drawn inside a transaction stays drawn after \<open>ROLLBACK\<close>.
\<close>

record 't pg =
  tables :: 't
  tx :: "'t option"
  seq :: int

definition BEGIN :: "'t pg \<Rightarrow> 't pg" where
  "BEGIN s = (case tx s of None \<Rightarrow> s\<lparr>tx := Some (tables s)\<rparr> | Some _ \<Rightarrow> s)"

definition COMMIT :: "'t pg \<Rightarrow> 't pg" where
  "COMMIT s = (case tx s of None \<Rightarrow> s | Some w \<Rightarrow> s\<lparr>tables := w, tx := None\<rparr>)"

definition ROLLBACK :: "'t pg \<Rightarrow> 't pg" where
  "ROLLBACK s = s\<lparr>tx := None\<rparr>"

text \<open>What a statement of the client reads, and how it writes.\<close>

definition visible :: "'t pg \<Rightarrow> 't" where
  "visible s = (case tx s of None \<Rightarrow> tables s | Some w \<Rightarrow> w)"

definition pg_write :: "('t \<Rightarrow> 't) \<Rightarrow> 't pg \<Rightarrow> 't pg" where
  "pg_write f s = (case tx s of None \<Rightarrow> s\<lparr>tables := f (tables s)\<rparr> | Some w \<Rightarrow> s\<lparr>tx := Some (f w)\<rparr>)"

section \<open>Candidatos: the tables\<close>

text \<open>
  The columns are those the statements of \<open>candidatos.controller.js\<close> name. The text
  columns the \<open>UPDATE\<close> merges with \<open>COALESCE\<close> are nullable (\<open>None\<close> is NULL).
\<close>

record candidato =
  cand_id :: int
  dni :: string
  apellido_paterno :: "string option"
  apellido_materno :: "string option"
  nombres :: "string option"
  sede :: "string option"
  turno_horario :: "string option"
  grupo :: "string option"
  estado :: "string option"

record documento =
  candidato_id :: int
  tipo :: string
  url :: string

record cand_tables =
  candidatos :: "candidato list"
  candidato_documentos :: "documento list"

text \<open>\<open>COALESCE($n, column)\<close>.\<close>

definition COALESCE :: "'a option \<Rightarrow> 'a option \<Rightarrow> 'a option" where
  "COALESCE p c = (case p of None \<Rightarrow> c | Some v \<Rightarrow> Some v)"

text \<open>
  A statement sent with \<open>pool.query\<close> runs on its own connection and commits by itself.
  It either raises (the injected \<open>fault\<close>: any failure of the storage layer) and changes
  nothing, or applies the row function to every row the \<open>WHERE id=$n\<close> selects and reports
  \<open>rowCount\<close>.
\<close>

definition update_where_id ::
  "js_error option \<Rightarrow> int \<Rightarrow> (candidato \<Rightarrow> candidato) \<Rightarrow> cand_tables pg \<Rightarrow> js_error + (nat \<times> cand_tables pg)" where
  "update_where_id fault i f s =
     (case fault of
        Some e \<Rightarrow> Inl e
      | None \<Rightarrow>
          Inr (length (filter (\<lambda>r. cand_id r = i) (candidatos (tables s))),
               s\<lparr>tables := (tables s)\<lparr>candidatos :=
                    map (\<lambda>r. if cand_id r = i then f r else r) (candidatos (tables s))\<rparr>\<rparr>))"

subsection \<open>\<open>update\<close>: PUT /api/candidatos/:id\<close>

text \<open>
  The id of the route, \<open>Number(req.params.id)\<close>, is an integer \<open>i\<close>. Each of the seven
  parameters is \<open>field || null\<close>.
\<close>

definition update_row :: "jsobj \<Rightarrow> candidato \<Rightarrow> candidato" where
  "update_row body r =
     r\<lparr>apellido_paterno := COALESCE (or_null (body ''apellido_paterno'')) (apellido_paterno r),
       apellido_materno := COALESCE (or_null (body ''apellido_materno'')) (apellido_materno r),
       nombres := COALESCE (or_null (body ''nombres'')) (nombres r),
       sede := COALESCE (or_null (body ''sede'')) (sede r),
       turno_horario := COALESCE (or_null (body ''turno_horario'')) (turno_horario r),
       grupo := COALESCE (or_null (body ''grupo'')) (grupo r),
       estado := COALESCE (or_null (body ''estado'')) (estado r)\<rparr>"

definition update :: "js_error option \<Rightarrow> int \<Rightarrow> jsobj \<Rightarrow> cand_tables pg \<Rightarrow> unit response \<times> cand_tables pg" where
  "update fault i body s =
     (case update_where_id fault i (update_row body) s of
        Inl e \<Rightarrow> (Status 500, s)
      | Inr (rowCount, s') \<Rightarrow>
          if rowCount = 0 then (Status 404, s') else (Json (), s'))"

subsection \<open>\<open>updateEstado\<close>: PUT /api/candidatos/:id/estado\<close>

text \<open>
  The two versions of the handler differ in the enumeration only: the controller's and
  the one of the single-file server.
\<close>

definition estados_controller :: "string list" where
  "estados_controller = [''En Revision'', ''Cancelado'', ''Aprobado'']"

definition estados_server :: "string list" where
  "estados_server = [''EN_REVISION'', ''CANCELADO'', ''APROBADO'']"

text \<open>\<open>[...].includes(estado)\<close>: \<open>undefined\<close> is no member.\<close>

definition js_includes :: "string list \<Rightarrow> string option \<Rightarrow> bool" where
  "js_includes xs v = (case v of None \<Rightarrow> False | Some x \<Rightarrow> x \<in> set xs)"

definition updateEstado ::
  "string list \<Rightarrow> js_error option \<Rightarrow> int \<Rightarrow> jsobj \<Rightarrow> cand_tables pg \<Rightarrow> unit response \<times> cand_tables pg" where
  "updateEstado enum fault i body s =
     (if \<not> js_includes enum (body ''estado'') then (Status 400, s)
      else
        (case update_where_id fault i (\<lambda>r. r\<lparr>estado := body ''estado''\<rparr>) s of
           Inl e \<Rightarrow> (Status 500, s)
         | Inr (rowCount, s') \<Rightarrow>
             if rowCount = 0 then (Status 404, s') else (Json (), s')))"

subsection \<open>Sample data\<close>

definition ana :: candidato where
  "ana = \<lparr>cand_id = 1, dni = ''12345678'', apellido_paterno = Some ''Perez'',
          apellido_materno = Some ''Lopez'', nombres = Some ''Ana'', sede = Some ''Lima'',
          turno_horario = None, grupo = Some ''51'', estado = Some ''En Revision''\<rparr>"

definition luis :: candidato where
  "luis = \<lparr>cand_id = 2, dni = ''87654321'', apellido_paterno = Some ''Ramos'',
           apellido_materno = Some ''Diaz'', nombres = Some ''Luis'', sede = None,
           turno_horario = None, grupo = Some ''A'', estado = Some ''Aprobado''\<rparr>"

definition db0 :: "cand_tables pg" where
  "db0 = \<lparr>tables = \<lparr>candidatos = [ana, luis], candidato_documentos = []\<rparr>, tx = None, seq = 3\<rparr>"


subsection \<open>Properties of the two updates\<close>

lemma map_no_match: "\<forall>r \<in> set rs. cand_id r \<noteq> i \<Longrightarrow> map (\<lambda>r. if cand_id r = i then f r else r) rs = rs"
  by (induction rs) auto

lemma update_where_id_None:
  "update_where_id None i f s =
     Inr (length (filter (\<lambda>r. cand_id r = i) (candidatos (tables s))),
          s\<lparr>tables := (tables s)\<lparr>candidatos := map (\<lambda>r. if cand_id r = i then f r else r) (candidatos (tables s))\<rparr>\<rparr>)"
  by (simp add: update_where_id_def)

lemma update_where_id_absent:
  assumes "\<forall>r \<in> set (candidatos (tables s)). cand_id r \<noteq> i"
  shows "update_where_id None i f s = Inr (0, s)"
proof -
  have "filter (\<lambda>r. cand_id r = i) (candidatos (tables s)) = []"
    using assms by (simp add: filter_empty_conv)
  moreover have "map (\<lambda>r. if cand_id r = i then f r else r) (candidatos (tables s)) = candidatos (tables s)"
    using assms by (rule map_no_match)
  ultimately show ?thesis
    by (simp add: update_where_id_None)
qed

lemma update_where_id_present:
  assumes "\<exists>r \<in> set (candidatos (tables s)). cand_id r = i"
  shows "\<exists>n. n \<noteq> 0 \<and> update_where_id None i f s =
     Inr (n, s\<lparr>tables := (tables s)\<lparr>candidatos := map (\<lambda>r. if cand_id r = i then f r else r) (candidatos (tables s))\<rparr>\<rparr>)"
proof -
  have "filter (\<lambda>r. cand_id r = i) (candidatos (tables s)) \<noteq> []"
    using assms by (auto simp: filter_empty_conv)
  then show ?thesis
    by (simp add: update_where_id_None)
qed

text \<open>
  Claim C9. PUT /api/candidatos/:id/estado, in both versions of the handler: an estado
  outside the three-value enumeration (or no estado at all) answers 400 and leaves the
  database as it was, whatever the storage layer would do; a valid estado for an id no row
  has answers 404 and leaves the database as it was; a valid estado for an id some row has
  answers \<open>{ok: true}\<close>, every row with that id is the row it was with \<open>estado\<close> set to
  the value sent, and every other row, the documents, the open transaction and the
  sequence are untouched. (The storage layer is taken not to fail in the last two cases:
  a failure there answers 500.)
\<close>

theorem updateEstado_outcomes:
  assumes "enum = estados_controller \<or> enum = estados_server"
  shows "(\<not> js_includes enum (body ''estado'') \<longrightarrow> updateEstado enum fault i body s = (Status 400, s))
       \<and> (js_includes enum (body ''estado'') \<and> (\<forall>r \<in> set (candidatos (tables s)). cand_id r \<noteq> i)
             \<longrightarrow> updateEstado enum None i body s = (Status 404, s))
       \<and> (js_includes enum (body ''estado'') \<and> (\<exists>r \<in> set (candidatos (tables s)). cand_id r = i)
             \<longrightarrow> (\<exists>s'. updateEstado enum None i body s = (Json (), s')
                    \<and> tx s' = tx s \<and> seq s' = seq s
                    \<and> candidato_documentos (tables s') = candidato_documentos (tables s)
                    \<and> length (candidatos (tables s')) = length (candidatos (tables s))
                    \<and> (\<forall>k < length (candidatos (tables s)).
                          candidatos (tables s') ! k =
                            (if cand_id (candidatos (tables s) ! k) = i
                             then (candidatos (tables s) ! k)\<lparr>estado := body ''estado''\<rparr>
                             else candidatos (tables s) ! k))))"
proof (intro conjI impI)
  assume "\<not> js_includes enum (body ''estado'')"
  then show "updateEstado enum fault i body s = (Status 400, s)"
    by (simp add: updateEstado_def)
next
  assume "js_includes enum (body ''estado'') \<and> (\<forall>r \<in> set (candidatos (tables s)). cand_id r \<noteq> i)"
  then show "updateEstado enum None i body s = (Status 404, s)"
    by (simp add: updateEstado_def update_where_id_absent)
next
  assume a: "js_includes enum (body ''estado'') \<and> (\<exists>r \<in> set (candidatos (tables s)). cand_id r = i)"
  let ?f = "\<lambda>r. r\<lparr>estado := body ''estado''\<rparr>"
  let ?s' = "s\<lparr>tables := (tables s)\<lparr>candidatos := map (\<lambda>r. if cand_id r = i then ?f r else r) (candidatos (tables s))\<rparr>\<rparr>"
  from a obtain n where n: "n \<noteq> 0" "update_where_id None i ?f s = Inr (n, ?s')"
    using update_where_id_present [of s i ?f] by blast
  have "updateEstado enum None i body s = (Json (), ?s')"
    using a n by (simp add: updateEstado_def)
  then show "\<exists>s'. updateEstado enum None i body s = (Json (), s')
                    \<and> tx s' = tx s \<and> seq s' = seq s
                    \<and> candidato_documentos (tables s') = candidato_documentos (tables s)
                    \<and> length (candidatos (tables s')) = length (candidatos (tables s))
                    \<and> (\<forall>k < length (candidatos (tables s)).
                          candidatos (tables s') ! k =
                            (if cand_id (candidatos (tables s) ! k) = i
                             then (candidatos (tables s) ! k)\<lparr>estado := body ''estado''\<rparr>
                             else candidatos (tables s) ! k))"
    by (intro exI [of _ ?s']) simp
qed

theorem updateEstado_outcomes_witness:
  "updateEstado estados_controller None 1 (Map.empty(''estado'' \<mapsto> ''Pendiente'')) db0 = (Status 400, db0)
   \<and> updateEstado estados_controller None 7 (Map.empty(''estado'' \<mapsto> ''Aprobado'')) db0 = (Status 404, db0)
   \<and> fst (updateEstado estados_controller None 1 (Map.empty(''estado'' \<mapsto> ''Aprobado'')) db0) = Json ()
   \<and> candidatos (tables (snd (updateEstado estados_controller None 1 (Map.empty(''estado'' \<mapsto> ''Aprobado'')) db0)))
       = [ana\<lparr>estado := Some ''Aprobado''\<rparr>, luis]"
proof -
  have e: "estados_controller = estados_controller \<or> estados_controller = estados_server" by simp
  have m1: "\<not> js_includes estados_controller ((Map.empty(''estado'' \<mapsto> ''Pendiente'')) ''estado'')"
    by (simp add: js_includes_def estados_controller_def)
  have m2: "js_includes estados_controller ((Map.empty(''estado'' \<mapsto> ''Aprobado'')) ''estado'')"
    by (simp add: js_includes_def estados_controller_def)
  have absent: "\<forall>r \<in> set (candidatos (tables db0)). cand_id r \<noteq> 7"
    by (simp add: db0_def ana_def luis_def)
  have present: "\<exists>r \<in> set (candidatos (tables db0)). cand_id r = 1"
    by (simp add: db0_def ana_def luis_def)
  note t = updateEstado_outcomes [OF e]
  have "updateEstado estados_controller None 1 (Map.empty(''estado'' \<mapsto> ''Pendiente'')) db0 = (Status 400, db0)"
    using t [of "Map.empty(''estado'' \<mapsto> ''Pendiente'')" None 1 db0] m1 by blast
  moreover have "updateEstado estados_controller None 7 (Map.empty(''estado'' \<mapsto> ''Aprobado'')) db0 = (Status 404, db0)"
    using t [of "Map.empty(''estado'' \<mapsto> ''Aprobado'')" None 7 db0] m2 absent by blast
  moreover obtain s' where s': "updateEstado estados_controller None 1 (Map.empty(''estado'' \<mapsto> ''Aprobado'')) db0 = (Json (), s')"
      "length (candidatos (tables s')) = length (candidatos (tables db0))"
      "\<forall>k < length (candidatos (tables db0)).
          candidatos (tables s') ! k =
            (if cand_id (candidatos (tables db0) ! k) = 1
             then (candidatos (tables db0) ! k)\<lparr>estado := (Map.empty(''estado'' \<mapsto> ''Aprobado'')) ''estado''\<rparr>
             else candidatos (tables db0) ! k)"
    using t [of "Map.empty(''estado'' \<mapsto> ''Aprobado'')" None 1 db0] m2 present by blast
  moreover have "candidatos (tables s') = [ana\<lparr>estado := Some ''Aprobado''\<rparr>, luis]"
  proof (rule nth_equalityI)
    show "length (candidatos (tables s')) = length [ana\<lparr>estado := Some ''Aprobado''\<rparr>, luis]"
      using s'(2) by (simp add: db0_def)
  next
    fix k assume "k < length (candidatos (tables s'))"
    then have "k < 2" using s'(2) by (simp add: db0_def)
    then have "k = 0 \<or> k = 1" by auto
    then show "candidatos (tables s') ! k = [ana\<lparr>estado := Some ''Aprobado''\<rparr>, luis] ! k"
      using s'(3) by (auto simp: db0_def ana_def luis_def)
  qed
  ultimately show ?thesis by simp
qed

lemma COALESCE_or_null: "COALESCE (or_null v) c = (if truthy v then v else c)"
  by (cases v) (auto simp: COALESCE_def or_null_def truthy_def)

text \<open>
  Claim C8, as amended. PUT /api/candidatos/:id with no failure of the storage layer: when
  no row has the id the answer is 404 and the database is as it was; when some row has it
  the answer is \<open>{ok: true}\<close>, and in every row with that id each of the seven fields
  \<open>apellido_paterno\<close>, \<open>apellido_materno\<close>, \<open>nombres\<close>, \<open>sede\<close>, \<open>turno_horario\<close>,
  \<open>grupo\<close>, \<open>estado\<close> takes the value sent when that value is a non-empty string and
  keeps the stored value when the field is absent or sent empty (\<open>x || null\<close> turns the empty
  string into NULL before \<open>COALESCE\<close>); \<open>id\<close> and \<open>dni\<close> are kept, every other row, the
  documents, the open transaction and the sequence are untouched.
\<close>

theorem update_outcomes:
  "((\<forall>r \<in> set (candidatos (tables s)). cand_id r \<noteq> i) \<longrightarrow> update None i body s = (Status 404, s))
   \<and> ((\<exists>r \<in> set (candidatos (tables s)). cand_id r = i)
         \<longrightarrow> (\<exists>s'. update None i body s = (Json (), s')
               \<and> tx s' = tx s \<and> seq s' = seq s
               \<and> candidato_documentos (tables s') = candidato_documentos (tables s)
               \<and> length (candidatos (tables s')) = length (candidatos (tables s))
               \<and> (\<forall>k < length (candidatos (tables s)).
                    let r = candidatos (tables s) ! k; r' = candidatos (tables s') ! k in
                    if cand_id r = i
                    then cand_id r' = cand_id r \<and> dni r' = dni r
                       \<and> apellido_paterno r' = (if truthy (body ''apellido_paterno'') then body ''apellido_paterno'' else apellido_paterno r)
                       \<and> apellido_materno r' = (if truthy (body ''apellido_materno'') then body ''apellido_materno'' else apellido_materno r)
                       \<and> nombres r' = (if truthy (body ''nombres'') then body ''nombres'' else nombres r)
                       \<and> sede r' = (if truthy (body ''sede'') then body ''sede'' else sede r)
                       \<and> turno_horario r' = (if truthy (body ''turno_horario'') then body ''turno_horario'' else turno_horario r)
                       \<and> grupo r' = (if truthy (body ''grupo'') then body ''grupo'' else grupo r)
                       \<and> estado r' = (if truthy (body ''estado'') then body ''estado'' else estado r)
                    else r' = r)))"
proof (intro conjI impI)
  assume "\<forall>r \<in> set (candidatos (tables s)). cand_id r \<noteq> i"
  then show "update None i body s = (Status 404, s)"
    by (simp add: update_def update_where_id_absent)
next
  assume a: "\<exists>r \<in> set (candidatos (tables s)). cand_id r = i"
  let ?s' = "s\<lparr>tables := (tables s)\<lparr>candidatos := map (\<lambda>r. if cand_id r = i then update_row body r else r) (candidatos (tables s))\<rparr>\<rparr>"
  from a obtain n where n: "n \<noteq> 0" "update_where_id None i (update_row body) s = Inr (n, ?s')"
    using update_where_id_present [of s i "update_row body"] by blast
  have "update None i body s = (Json (), ?s')"
    using n by (simp add: update_def)
  then show "\<exists>s'. update None i body s = (Json (), s')
               \<and> tx s' = tx s \<and> seq s' = seq s
               \<and> candidato_documentos (tables s') = candidato_documentos (tables s)
               \<and> length (candidatos (tables s')) = length (candidatos (tables s))
               \<and> (\<forall>k < length (candidatos (tables s)).
                    let r = candidatos (tables s) ! k; r' = candidatos (tables s') ! k in
                    if cand_id r = i
                    then cand_id r' = cand_id r \<and> dni r' = dni r
                       \<and> apellido_paterno r' = (if truthy (body ''apellido_paterno'') then body ''apellido_paterno'' else apellido_paterno r)
                       \<and> apellido_materno r' = (if truthy (body ''apellido_materno'') then body ''apellido_materno'' else apellido_materno r)
                       \<and> nombres r' = (if truthy (body ''nombres'') then body ''nombres'' else nombres r)
                       \<and> sede r' = (if truthy (body ''sede'') then body ''sede'' else sede r)
                       \<and> turno_horario r' = (if truthy (body ''turno_horario'') then body ''turno_horario'' else turno_horario r)
                       \<and> grupo r' = (if truthy (body ''grupo'') then body ''grupo'' else grupo r)
                       \<and> estado r' = (if truthy (body ''estado'') then body ''estado'' else estado r)
                    else r' = r)"
    by (intro exI [of _ ?s']) (simp add: Let_def update_row_def COALESCE_or_null)
qed

definition body_nombres_vacio :: jsobj where
  "body_nombres_vacio = Map.empty(''nombres'' \<mapsto> '''', ''sede'' \<mapsto> ''Cusco'')"

text \<open>
  The claim as first stated ("each supplied field takes the supplied value") fails for a
  field supplied empty, as a multipart form sends a text input left blank: \<open>nombres\<close> is
  sent as \<open>""\<close> and the stored names stay.
\<close>

theorem update_supplied_empty_counterexample:
  "body_nombres_vacio ''nombres'' = Some ''''
   \<and> fst (update None 1 body_nombres_vacio db0) = Json ()
   \<and> map nombres (candidatos (tables (snd (update None 1 body_nombres_vacio db0)))) = [Some ''Ana'', Some ''Luis'']"
  by (simp add: body_nombres_vacio_def update_def update_where_id_def db0_def ana_def luis_def
      update_row_def COALESCE_def or_null_def truthy_def)

theorem update_outcomes_witness:
  "update None 7 body_nombres_vacio db0 = (Status 404, db0)
   \<and> fst (update None 1 body_nombres_vacio db0) = Json ()
   \<and> candidatos (tables (snd (update None 1 body_nombres_vacio db0))) = [ana\<lparr>sede := Some ''Cusco''\<rparr>, luis]"
proof -
  have absent: "\<forall>r \<in> set (candidatos (tables db0)). cand_id r \<noteq> 7"
    by (simp add: db0_def ana_def luis_def)
  have "update None 7 body_nombres_vacio db0 = (Status 404, db0)"
    using update_outcomes [of db0 7 body_nombres_vacio] absent by blast
  moreover have "update None 1 body_nombres_vacio db0
      = (Json (), db0\<lparr>tables := (tables db0)\<lparr>candidatos := [ana\<lparr>sede := Some ''Cusco''\<rparr>, luis]\<rparr>\<rparr>)"
    by (simp add: body_nombres_vacio_def update_def update_where_id_def db0_def ana_def luis_def
      update_row_def COALESCE_def or_null_def truthy_def)
  ultimately show ?thesis by simp
qed

subsection \<open>\<open>create\<close>: POST /api/candidatos\<close>














subsection \<open>Properties of \<open>create\<close>\<close>









subsection \<open>Sample requests\<close>















section \<open>The list endpoints\<close>

subsection \<open>JavaScript numbers and decimal numerals\<close>

text \<open>
  A JavaScript number is NaN, an infinity or a finite double, which is a rational. What
  \<open>Number(string)\<close> returns depends on the numeric grammar and on rounding to a double; the
  handlers take it as given, so it is a parameter \<open>Number\<close> of every definition that
  calls it.
\<close>

datatype jsnum = NaN | PosInf | NegInf | Fin rat

text \<open>\<open>a === b\<close>, \<open>a >= b\<close> and \<open>a <= b\<close> on numbers: every comparison with NaN is false.\<close>

fun js_eq :: "jsnum \<Rightarrow> jsnum \<Rightarrow> bool" where
  "js_eq NaN _ = False"
| "js_eq _ NaN = False"
| "js_eq a b = (a = b)"

fun js_le :: "jsnum \<Rightarrow> jsnum \<Rightarrow> bool" where
  "js_le NaN _ = False"
| "js_le _ NaN = False"
| "js_le NegInf _ = True"
| "js_le _ PosInf = True"
| "js_le PosInf _ = False"
| "js_le _ NegInf = False"
| "js_le (Fin a) (Fin b) = (a \<le> b)"

text \<open>Decimal numerals, as a template literal prints a positive integer counter.\<close>

definition digit_char :: "nat \<Rightarrow> char" where
  "digit_char d = ''0123456789'' ! d"

fun dec :: "nat \<Rightarrow> string" where
  "dec n = (if n < 10 then [digit_char n] else dec (n div 10) @ [digit_char (n mod 10)])"

declare dec.simps [simp del]

definition is_digit :: "char \<Rightarrow> bool" where
  "is_digit c \<longleftrightarrow> c \<in> set ''0123456789''"

definition digit_val :: "char \<Rightarrow> nat" where
  "digit_val c = length (takeWhile (\<lambda>d. d \<noteq> c) ''0123456789'')"

definition undec :: "string \<Rightarrow> nat" where
  "undec s = foldl (\<lambda>acc c. 10 * acc + digit_val c) 0 s"

lemma less_ten:
  "d < (10::nat) \<longleftrightarrow> d = 0 \<or> d = 1 \<or> d = 2 \<or> d = 3 \<or> d = 4 \<or> d = 5 \<or> d = 6 \<or> d = 7 \<or> d = 8 \<or> d = 9"
  by presburger

lemma digit_val_digit_char: "d < 10 \<Longrightarrow> digit_val (digit_char d) = d"
  unfolding less_ten by (elim disjE) (simp_all add: digit_val_def digit_char_def)

lemma is_digit_digit_char: "d < 10 \<Longrightarrow> is_digit (digit_char d)"
  unfolding less_ten by (elim disjE) (simp_all add: is_digit_def digit_char_def)

lemma undec_snoc: "undec (s @ [c]) = 10 * undec s + digit_val c"
  by (simp add: undec_def)

lemma undec_dec: "undec (dec n) = n"
proof (induction n rule: dec.induct)
  case (1 n)
  show ?case
  proof (cases "n < 10")
    case True
    then show ?thesis
      by (simp add: dec.simps [of n] undec_def digit_val_digit_char)
  next
    case False
    then show ?thesis
      using 1 by (simp add: dec.simps [of n] undec_snoc digit_val_digit_char)
  qed
qed

lemma dec_inj: "dec m = dec n \<Longrightarrow> m = n"
  by (metis undec_dec)

lemma dec_digits: "\<forall>c \<in> set (dec n). is_digit c"
proof (induction n rule: dec.induct)
  case (1 n)
  show ?case
  proof (cases "n < 10")
    case True
    then show ?thesis
      by (simp add: dec.simps [of n] is_digit_digit_char)
  next
    case False
    then show ?thesis
      using 1 by (simp add: dec.simps [of n] is_digit_digit_char)
  qed
qed

lemma dec_nonempty: "dec n \<noteq> []"
  by (simp add: dec.simps [of n])

subsection \<open>Built-ins the handlers call\<close>

text \<open>
  The string functions of JavaScript and of PostgreSQL that need Unicode tables or a
  locale are parameters too: \<open>Number\<close>, \<open>String.prototype.trim\<close>, \<open>toLowerCase\<close>,
  \<open>toUpperCase\<close>, \<open>normalize(form)\<close>, the removal of the combining marks U+0300 to
  U+036F, and SQL's \<open>LOWER\<close>.
\<close>

record platform =
  Number :: "string \<Rightarrow> jsnum"
  trim :: "string \<Rightarrow> string"
  toLowerCase :: "string \<Rightarrow> string"
  toUpperCase :: "string \<Rightarrow> string"
  normalize :: "string \<Rightarrow> string \<Rightarrow> string"
  strip_marks :: "string \<Rightarrow> string"
  LOWER :: "string \<Rightarrow> string"

subsection \<open>The WHERE clause the handlers assemble\<close>

text \<open>
  A bound parameter is the JavaScript value pushed on \<open>params\<close>. A predicate pushed on
  \<open>where\<close> is kept as its syntax tree, with the numbers of its placeholders; \<open>render\<close>
  prints the text the GET /api/candidatos handlers push (the controller writes the columns
  as \<open>v.fecha\<close>, the single-file server as \<open>fecha\<close>).
\<close>

datatype param = PNumber jsnum | PText string

datatype pred =
    YearEq nat
  | MonthEq nat
  | EstadoLower nat
  | EstadoRaw nat
  | GrupoGuarded nat nat
  | GrupoCast nat nat

fun render :: "string \<Rightarrow> pred \<Rightarrow> string" where
  "render v (YearEq i) = ''EXTRACT(YEAR  FROM '' @ v @ ''fecha) = $'' @ dec i"
| "render v (MonthEq i) = ''EXTRACT(MONTH FROM '' @ v @ ''fecha) = $'' @ dec i"
| "render v (EstadoLower i) = ''LOWER('' @ v @ ''estado) = LOWER($'' @ dec i @ '')''"
| "render v (EstadoRaw i) = v @ ''estado = $'' @ dec i"
| "render v (GrupoGuarded i j) =
     ''('' @ v @ ''grupo ~ '' @ [CHR 0x27] @ ''^[0-9]+$'' @ [CHR 0x27] @ '' AND CAST('' @ v @ ''grupo AS INT) BETWEEN $''
       @ dec i @ '' AND $'' @ dec j @ '')''"
| "render v (GrupoCast i j) = ''CAST('' @ v @ ''grupo AS INT) BETWEEN $'' @ dec i @ '' AND $'' @ dec j"

text \<open>\<open>Array.prototype.join\<close>.\<close>

fun join :: "string \<Rightarrow> string list \<Rightarrow> string" where
  "join sep [] = []"
| "join sep [x] = x"
| "join sep (x # y # ys) = x @ sep @ join sep (y # ys)"

definition whereSQL :: "string \<Rightarrow> pred list \<Rightarrow> string" where
  "whereSQL v wh = (if wh \<noteq> [] then ''WHERE '' @ join '' AND '' (map (render v) wh) else [])"

text \<open>
  The three variables of the builder: \<open>where\<close>, \<open>params\<close> and the counter \<open>i\<close>. A push
  with one placeholder is \<open>where.push(`... $${i++}`); params.push(p)\<close>, the group range
  pushes one predicate with two placeholders and two parameters.
\<close>

type_synonym builder = "pred list \<times> param list \<times> nat"

definition push1 :: "(nat \<Rightarrow> pred) \<Rightarrow> param \<Rightarrow> builder \<Rightarrow> builder" where
  "push1 mk p b = (case b of (wh, ps, i) \<Rightarrow> (wh @ [mk i], ps @ [p], i + 1))"

definition push2 :: "(nat \<Rightarrow> nat \<Rightarrow> pred) \<Rightarrow> param \<Rightarrow> param \<Rightarrow> builder \<Rightarrow> builder" where
  "push2 mk p q b = (case b of (wh, ps, i) \<Rightarrow> (wh @ [mk i (i + 1)], ps @ [p, q], i + 2))"

text \<open>\<open>const { ano = "TODOS", ... } = req.query\<close>: the default stands in for \<open>undefined\<close> only.\<close>

definition with_default :: "string \<Rightarrow> string option \<Rightarrow> string" where
  "with_default d v = (case v of None \<Rightarrow> d | Some s \<Rightarrow> s)"

text \<open>
  GET /api/candidatos. The versions differ in the predicate on \<open>estado\<close> only
  (\<open>EstadoLower\<close> in the controller, \<open>EstadoRaw\<close> in the single-file server).
\<close>

definition candidatos_where :: "platform \<Rightarrow> (nat \<Rightarrow> pred) \<Rightarrow> jsobj \<Rightarrow> pred list \<times> param list" where
  "candidatos_where pf estado_pred query =
     (let ano = with_default ''TODOS'' (query ''ano'');
          mes = with_default ''TODOS'' (query ''mes'');
          estado = query ''estado'';
          grupoInicio = query ''grupoInicio'';
          grupoFin = query ''grupoFin'';
          b0 = ([], [], 1);
          b1 = (if ano \<noteq> ''TODOS'' then push1 YearEq (PNumber (Number pf ano)) b0 else b0);
          b2 = (if mes \<noteq> ''TODOS'' then push1 MonthEq (PNumber (Number pf mes)) b1 else b1);
          b3 = (if truthy estado then push1 estado_pred (PText (the estado)) b2 else b2);
          b4 = (if truthy grupoInicio \<and> truthy grupoFin
                then push2 GrupoGuarded (PNumber (Number pf (the grupoInicio)))
                       (PNumber (Number pf (the grupoFin))) b3
                else b3)
      in (fst b4, fst (snd b4)))"

subsection \<open>What PostgreSQL does with the statement\<close>

text \<open>
  The rows of the view \<open>vw_api_candidatos\<close> (and of the table \<open>empleados\<close>), with the
  columns the WHERE clause and the ORDER BY read: \<open>fecha\<close> is (year, month, the rest of the
  date), ordered lexicographically. The other columns of the projection, and the count
  of documents the controller joins to each row, are carried along and decide nothing.
\<close>

record vrow =
  v_id :: int
  v_grupo :: "string option"
  v_estado :: "string option"
  v_fecha :: "int \<times> int \<times> int"

definition param_at :: "param list \<Rightarrow> nat \<Rightarrow> param option" where
  "param_at ps i = (if 1 \<le> i \<and> i \<le> length ps then Some (ps ! (i - 1)) else None)"

text \<open>
  node-postgres sends a number as its decimal text. Compared with \<open>EXTRACT(...)\<close> it is
  read as a numeric (\<open>NaN\<close> is one, and equals no year); bound where an \<open>INT\<close> is expected
  it must be an integer in the 32-bit range, or the statement fails.
\<close>

fun num_eq :: "int \<Rightarrow> jsnum \<Rightarrow> bool" where
  "num_eq y (Fin q) = (of_int y = q)"
| "num_eq y _ = False"

fun to_int4 :: "jsnum \<Rightarrow> int option" where
  "to_int4 (Fin q) =
     (if q = of_int \<lfloor>q\<rfloor> \<and> - 2147483648 \<le> \<lfloor>q\<rfloor> \<and> \<lfloor>q\<rfloor> \<le> 2147483647 then Some \<lfloor>q\<rfloor> else None)"
| "to_int4 _ = None"

definition invalid_text_representation :: js_error where
  "invalid_text_representation = JsError (Some ''22P02'')"

definition numeric_value_out_of_range :: js_error where
  "numeric_value_out_of_range = JsError (Some ''22003'')"

definition protocol_violation :: js_error where
  "protocol_violation = JsError (Some ''08P01'')"

text \<open>
  \<open>CAST(text AS INT)\<close>: blanks around an optionally signed run of decimal digits, in the
  32-bit range; anything else is an error. (The non-decimal integer literals that
  PostgreSQL 16 added are left out.)
\<close>

definition is_space :: "char \<Rightarrow> bool" where
  "is_space c \<longleftrightarrow> c \<in> set [CHR '' '', CHR 0x09, CHR 0x0A, CHR 0x0B, CHR 0x0C, CHR 0x0D]"

definition strip_blanks :: "string \<Rightarrow> string" where
  "strip_blanks s = rev (dropWhile is_space (rev (dropWhile is_space s)))"

definition all_digits :: "string \<Rightarrow> bool" where
  "all_digits s \<longleftrightarrow> s \<noteq> [] \<and> list_all is_digit s"

definition in_int4 :: "int \<Rightarrow> js_error + int" where
  "in_int4 n = (if - 2147483648 \<le> n \<and> n \<le> 2147483647 then Inr n else Inl numeric_value_out_of_range)"

definition CAST_INT :: "string \<Rightarrow> js_error + int" where
  "CAST_INT s =
     (case strip_blanks s of
        [] \<Rightarrow> Inl invalid_text_representation
      | c # cs \<Rightarrow>
          if c = CHR ''-'' then (if all_digits cs then in_int4 (- int (undec cs)) else Inl invalid_text_representation)
          else if c = CHR ''+'' then (if all_digits cs then in_int4 (int (undec cs)) else Inl invalid_text_representation)
          else if all_digits (c # cs) then in_int4 (int (undec (c # cs)))
          else Inl invalid_text_representation)"

text \<open>
  Binding: every placeholder has a parameter, and a parameter of the \<open>BETWEEN\<close> over
  \<open>CAST(grupo AS INT)\<close> is an integer. The handlers bind numbers to the numeric
  placeholders and a text to the one of \<open>estado\<close>; any other pairing is refused here.
\<close>

fun bind_pred :: "param list \<Rightarrow> pred \<Rightarrow> js_error option" where
  "bind_pred ps (YearEq i) =
     (case param_at ps i of Some (PNumber n) \<Rightarrow> None | Some (PText s) \<Rightarrow> Some invalid_text_representation
      | None \<Rightarrow> Some protocol_violation)"
| "bind_pred ps (MonthEq i) =
     (case param_at ps i of Some (PNumber n) \<Rightarrow> None | Some (PText s) \<Rightarrow> Some invalid_text_representation
      | None \<Rightarrow> Some protocol_violation)"
| "bind_pred ps (EstadoLower i) =
     (case param_at ps i of Some (PText s) \<Rightarrow> None | Some (PNumber n) \<Rightarrow> Some invalid_text_representation
      | None \<Rightarrow> Some protocol_violation)"
| "bind_pred ps (EstadoRaw i) =
     (case param_at ps i of Some (PText s) \<Rightarrow> None | Some (PNumber n) \<Rightarrow> Some invalid_text_representation
      | None \<Rightarrow> Some protocol_violation)"
| "bind_pred ps (GrupoGuarded i j) =
     (case (param_at ps i, param_at ps j) of
        (Some (PNumber a), Some (PNumber b)) \<Rightarrow>
          (if to_int4 a = None \<or> to_int4 b = None then Some invalid_text_representation else None)
      | (Some _, Some _) \<Rightarrow> Some invalid_text_representation
      | _ \<Rightarrow> Some protocol_violation)"
| "bind_pred ps (GrupoCast i j) =
     (case (param_at ps i, param_at ps j) of
        (Some (PNumber a), Some (PNumber b)) \<Rightarrow>
          (if to_int4 a = None \<or> to_int4 b = None then Some invalid_text_representation else None)
      | (Some _, Some _) \<Rightarrow> Some invalid_text_representation
      | _ \<Rightarrow> Some protocol_violation)"

fun bind_all :: "param list \<Rightarrow> pred list \<Rightarrow> js_error option" where
  "bind_all ps [] = None"
| "bind_all ps (p # wh) = (case bind_pred ps p of Some e \<Rightarrow> Some e | None \<Rightarrow> bind_all ps wh)"

text \<open>The parameters of a bound statement, read back.\<close>

definition number_at :: "param list \<Rightarrow> nat \<Rightarrow> jsnum" where
  "number_at ps i = (case param_at ps i of Some (PNumber n) \<Rightarrow> n | _ \<Rightarrow> NaN)"

definition text_at :: "param list \<Rightarrow> nat \<Rightarrow> string" where
  "text_at ps i = (case param_at ps i of Some (PText s) \<Rightarrow> s | _ \<Rightarrow> [])"

definition int_at :: "param list \<Rightarrow> nat \<Rightarrow> int" where
  "int_at ps i = (case to_int4 (number_at ps i) of Some n \<Rightarrow> n | None \<Rightarrow> 0)"

text \<open>
  One predicate on one row: true, not true (false or NULL: the row is left out), or an
  error that ends the statement. A NULL column makes its predicate NULL. In the guarded
  group range the pattern test is evaluated first and the cast only where it holds,
  which is the order the handler relies on.
\<close>

fun holds :: "platform \<Rightarrow> param list \<Rightarrow> pred \<Rightarrow> vrow \<Rightarrow> js_error + bool" where
  "holds pf ps (YearEq i) r = Inr (num_eq (fst (v_fecha r)) (number_at ps i))"
| "holds pf ps (MonthEq i) r = Inr (num_eq (fst (snd (v_fecha r))) (number_at ps i))"
| "holds pf ps (EstadoLower i) r =
     (case v_estado r of None \<Rightarrow> Inr False | Some e \<Rightarrow> Inr (LOWER pf e = LOWER pf (text_at ps i)))"
| "holds pf ps (EstadoRaw i) r =
     (case v_estado r of None \<Rightarrow> Inr False | Some e \<Rightarrow> Inr (e = text_at ps i))"
| "holds pf ps (GrupoGuarded i j) r =
     (case v_grupo r of
        None \<Rightarrow> Inr False
      | Some g \<Rightarrow>
          if \<not> all_digits g then Inr False
          else (case CAST_INT g of
                  Inl e \<Rightarrow> Inl e
                | Inr n \<Rightarrow> Inr (int_at ps i \<le> n \<and> n \<le> int_at ps j)))"
| "holds pf ps (GrupoCast i j) r =
     (case v_grupo r of
        None \<Rightarrow> Inr False
      | Some g \<Rightarrow>
          (case CAST_INT g of
             Inl e \<Rightarrow> Inl e
           | Inr n \<Rightarrow> Inr (int_at ps i \<le> n \<and> n \<le> int_at ps j)))"

text \<open>The predicates of \<open>where\<close> are joined with \<open>AND\<close>: the first that is not true decides.\<close>

fun holds_all :: "platform \<Rightarrow> param list \<Rightarrow> pred list \<Rightarrow> vrow \<Rightarrow> js_error + bool" where
  "holds_all pf ps [] r = Inr True"
| "holds_all pf ps (p # wh) r =
     (case holds pf ps p r of
        Inl e \<Rightarrow> Inl e
      | Inr False \<Rightarrow> Inr False
      | Inr True \<Rightarrow> holds_all pf ps wh r)"

fun scan :: "platform \<Rightarrow> param list \<Rightarrow> pred list \<Rightarrow> vrow list \<Rightarrow> js_error + vrow list" where
  "scan pf ps wh [] = Inr []"
| "scan pf ps wh (r # rs) =
     (case holds_all pf ps wh r of
        Inl e \<Rightarrow> Inl e
      | Inr keep \<Rightarrow>
          (case scan pf ps wh rs of
             Inl e \<Rightarrow> Inl e
           | Inr out \<Rightarrow> Inr (if keep then r # out else out)))"

text \<open>\<open>ORDER BY fecha DESC, id DESC\<close>.\<close>

definition ORDER_BY_fecha_DESC_id_DESC :: "vrow list \<Rightarrow> vrow list" where
  "ORDER_BY_fecha_DESC_id_DESC rs = rev (sort_key (\<lambda>r. (v_fecha r, v_id r)) rs)"

definition SELECT :: "platform \<Rightarrow> pred list \<Rightarrow> param list \<Rightarrow> vrow list \<Rightarrow> js_error + vrow list" where
  "SELECT pf wh ps rows =
     (case bind_all ps wh of
        Some e \<Rightarrow> Inl e
      | None \<Rightarrow>
          (case scan pf ps wh rows of
             Inl e \<Rightarrow> Inl e
           | Inr out \<Rightarrow> Inr (ORDER_BY_fecha_DESC_id_DESC out)))"

text \<open>The handlers: the rows are answered as they come, any error is a 500.\<close>

definition answer_rows :: "js_error + 'a list \<Rightarrow> 'a list response" where
  "answer_rows r = (case r of Inl e \<Rightarrow> Status 500 | Inr rows \<Rightarrow> Json rows)"

definition list_candidatos :: "platform \<Rightarrow> (nat \<Rightarrow> pred) \<Rightarrow> jsobj \<Rightarrow> vrow list \<Rightarrow> vrow list response" where
  "list_candidatos pf estado_pred query view =
     (case candidatos_where pf estado_pred query of
        (wh, ps) \<Rightarrow> answer_rows (SELECT pf wh ps view))"

subsection \<open>GET /api/empleados over PostgreSQL\<close>

text \<open>
  The year and month filters apply only when both parameters are there, \<open>grupo=TODOS\<close>
  switches the range off, and the range predicate casts \<open>grupo\<close> without a pattern test.
  The model stops at the rows of the first query: the second query and the merge that
  follow decorate each row with the URLs of its documents and keep number and order.
\<close>

definition empleados_where :: "platform \<Rightarrow> jsobj \<Rightarrow> pred list \<times> param list" where
  "empleados_where pf query =
     (let ano = query ''ano''; mes = query ''mes''; grupo = query ''grupo'';
          grupoInicio = query ''grupoInicio''; grupoFin = query ''grupoFin'';
          b0 = ([], [], 1);
          b1 = (if truthy ano \<and> truthy mes \<and> the ano \<noteq> ''TODOS''
                then push1 YearEq (PNumber (Number pf (the ano))) b0 else b0);
          b2 = (if truthy ano \<and> truthy mes \<and> the mes \<noteq> ''TODOS''
                then push1 MonthEq (PNumber (Number pf (the mes))) b1 else b1);
          b3 = (if truthy grupo \<and> grupo = Some ''TODOS'' then b2
                else if truthy grupoInicio \<and> truthy grupoFin
                then push2 GrupoCast (PNumber (Number pf (the grupoInicio)))
                       (PNumber (Number pf (the grupoFin))) b2
                else b2)
      in (fst b3, fst (snd b3)))"

definition list_empleados :: "platform \<Rightarrow> jsobj \<Rightarrow> vrow list \<Rightarrow> vrow list response" where
  "list_empleados pf query tbl =
     (case empleados_where pf query of
        (wh, ps) \<Rightarrow> answer_rows (SELECT pf wh ps tbl))"

subsection \<open>GET /api/empleados over the in-memory array\<close>

record empleado =
  m_id :: int
  m_nombre :: string
  m_sede :: string
  m_grupo :: string
  m_fecha :: string
  m_dni :: "string option"
  m_certificados :: "string option"
  m_antecedentes :: "string option"
  m_medicos :: "string option"
  m_capacitacion :: "string option"

definition match_fecha :: "platform \<Rightarrow> string \<Rightarrow> string \<Rightarrow> empleado \<Rightarrow> bool" where
  "match_fecha pf ano mes e =
     (let y = take 4 (m_fecha e);
          m = take 2 (drop 5 (m_fecha e));
          matchAno = (ano = ''TODOS'' \<or> y = ano);
          matchMes = (mes = ''TODOS'' \<or> js_eq (Number pf m) (Number pf mes))
      in matchAno \<and> matchMes)"

definition match_grupo :: "platform \<Rightarrow> string \<Rightarrow> string \<Rightarrow> empleado \<Rightarrow> bool" where
  "match_grupo pf grupoInicio grupoFin e =
     (let ini = Number pf grupoInicio; fin = Number pf grupoFin; g = Number pf (m_grupo e)
      in js_le ini g \<and> js_le g fin)"

definition list_empleados_memoria :: "platform \<Rightarrow> jsobj \<Rightarrow> empleado list \<Rightarrow> empleado list response" where
  "list_empleados_memoria pf query empleados =
     (let ano = query ''ano''; mes = query ''mes''; grupo = query ''grupo'';
          grupoInicio = query ''grupoInicio''; grupoFin = query ''grupoFin'';
          result0 = empleados;
          result1 = (if truthy ano \<and> truthy mes then filter (match_fecha pf (the ano) (the mes)) result0
                     else result0);
          result2 = (if truthy grupo \<and> grupo = Some ''TODOS'' then result1
                     else if truthy grupoInicio \<and> truthy grupoFin
                     then filter (match_grupo pf (the grupoInicio) (the grupoFin)) result1
                     else result1)
      in Json result2)"

text \<open>The array the demo server starts with.\<close>

definition empleados_demo :: "empleado list" where
  "empleados_demo =
     [\<lparr>m_id = 1, m_nombre = ''JUAN PEREZ LOPEZ'', m_sede = ''Lima / Ma'' @ [CHR 0xC3, CHR 0xB1] @ ''ana'',
       m_grupo = ''51'', m_fecha = ''2024-08-01'',
       m_dni = Some ''https://example.com/uploads/1/dni.pdf'', m_certificados = None,
       m_antecedentes = Some ''https://example.com/uploads/1/antecedentes.pdf'', m_medicos = None,
       m_capacitacion = Some ''https://example.com/uploads/1/capacitacion.pdf''\<rparr>,
      \<lparr>m_id = 2, m_nombre = ''MARIA GARCIA FLORES'', m_sede = ''Arequipa / Tarde'',
       m_grupo = ''51'', m_fecha = ''2024-08-05'',
       m_dni = Some ''https://example.com/uploads/2/dni.pdf'',
       m_certificados = Some ''https://example.com/uploads/2/certificados.pdf'',
       m_antecedentes = None, m_medicos = None, m_capacitacion = None\<rparr>,
      \<lparr>m_id = 3, m_nombre = ''CARLOS RAMOS DIAZ'', m_sede = ''Cusco / Noche'',
       m_grupo = ''52'', m_fecha = ''2024-09-12'',
       m_dni = None, m_certificados = None, m_antecedentes = None,
       m_medicos = Some ''https://example.com/uploads/3/medicos.pdf'', m_capacitacion = None\<rparr>]"

subsection \<open>The query normalisation middleware of the single-file server\<close>

definition stripDiacritics :: "platform \<Rightarrow> string \<Rightarrow> string" where
  "stripDiacritics pf s = strip_marks pf (normalize pf ''NFD'' s)"

definition normalizeQueryValue :: "platform \<Rightarrow> string \<Rightarrow> string" where
  "normalizeQueryValue pf str = toLowerCase pf (stripDiacritics pf (trim pf str))"

text \<open>Every string of \<open>req.query\<close> is replaced before the route handler runs.\<close>

definition normalize_query :: "platform \<Rightarrow> jsobj \<Rightarrow> jsobj" where
  "normalize_query pf query = (\<lambda>k. map_option (normalizeQueryValue pf) (query k))"

definition server_list_candidatos :: "platform \<Rightarrow> jsobj \<Rightarrow> vrow list \<Rightarrow> vrow list response" where
  "server_list_candidatos pf query view = list_candidatos pf EstadoRaw (normalize_query pf query) view"

subsection \<open>The built-ins on ASCII text\<close>

text \<open>
  On ASCII text the string built-ins need no table: normalisation and the removal of
  combining marks change nothing, and the case mappings act on the 26 letters. \<open>num\<close>
  stands for \<open>Number\<close>. This instance is used to run the handlers on examples.
\<close>

definition ascii_lower :: "char \<Rightarrow> char" where
  "ascii_lower c =
     (case map_of (zip ''ABCDEFGHIJKLMNOPQRSTUVWXYZ'' ''abcdefghijklmnopqrstuvwxyz'') c of
        Some d \<Rightarrow> d | None \<Rightarrow> c)"

definition ascii_upper :: "char \<Rightarrow> char" where
  "ascii_upper c =
     (case map_of (zip ''abcdefghijklmnopqrstuvwxyz'' ''ABCDEFGHIJKLMNOPQRSTUVWXYZ'') c of
        Some d \<Rightarrow> d | None \<Rightarrow> c)"

definition ascii_platform :: "(string \<Rightarrow> jsnum) \<Rightarrow> platform" where
  "ascii_platform num =
     \<lparr>Number = num, trim = strip_blanks, toLowerCase = map ascii_lower, toUpperCase = map ascii_upper,
      normalize = (\<lambda>form s. s), strip_marks = (\<lambda>s. s), LOWER = map ascii_lower\<rparr>"

text \<open>
  \<open>Number\<close> on the strings of the examples: a short run of decimal digits is its value,
  a word is NaN.
\<close>

definition Number_of_digits :: "string \<Rightarrow> jsnum" where
  "Number_of_digits s = (if all_digits s then Fin (of_nat (undec s)) else NaN)"

subsection \<open>Properties of the list endpoints\<close>

lemma fecha_less:
  "((y, m, d) < ((y', m', d') :: int \<times> int \<times> int)) \<longleftrightarrow> y < y' \<or> y = y' \<and> (m < m' \<or> m = m' \<and> d < d')"
  by (auto simp: less_prod_def)

lemma lex_pair_le:
  "((x :: 'a :: linorder, i :: 'b :: linorder) \<le> (y, j)) \<longleftrightarrow> x < y \<or> x = y \<and> i \<le> j"
  by (auto simp: less_eq_prod_def)

lemma scan_filter:
  "scan pf ps wh rs = Inr out \<Longrightarrow> out = filter (\<lambda>r. holds_all pf ps wh r = Inr True) rs"
proof (induction rs arbitrary: out)
  case Nil
  then show ?case by simp
next
  case (Cons r rs)
  then show ?case
    by (auto split: sum.splits if_splits)
qed

lemma ORDER_BY_sorted:
  "sorted_wrt (\<lambda>a b. v_fecha b < v_fecha a \<or> v_fecha a = v_fecha b \<and> v_id b \<le> v_id a)
     (ORDER_BY_fecha_DESC_id_DESC rs)"
proof -
  let ?k = "\<lambda>r. (v_fecha r, v_id r)"
  have "sorted (map ?k (sort_key ?k rs))"
    by (rule sorted_sort_key)
  then have "sorted_wrt (\<lambda>a b. ?k a \<le> ?k b) (sort_key ?k rs)"
    by (simp add: sorted_map)
  then have "sorted_wrt (\<lambda>a b. ?k b \<le> ?k a) (rev (sort_key ?k rs))"
    by (simp add: sorted_wrt_rev)
  then have "sorted_wrt (\<lambda>a b. v_fecha b < v_fecha a \<or> v_fecha a = v_fecha b \<and> v_id b \<le> v_id a)
     (rev (sort_key ?k rs))"
    by (rule sorted_wrt_mono_rel [rotated]) (auto simp only: lex_pair_le)
  then show ?thesis
    by (simp only: ORDER_BY_fecha_DESC_id_DESC_def)
qed

lemma ORDER_BY_mset: "mset (ORDER_BY_fecha_DESC_id_DESC rs) = mset rs"
  by (simp add: ORDER_BY_fecha_DESC_id_DESC_def)

lemma SELECT_result:
  assumes "SELECT pf wh ps rows = Inr out"
  shows "out = ORDER_BY_fecha_DESC_id_DESC (filter (\<lambda>r. holds_all pf ps wh r = Inr True) rows)"
  using assms by (auto simp: SELECT_def split: option.splits sum.splits dest: scan_filter)

lemma list_candidatos_Json:
  assumes "list_candidatos pf ep query view = Json rows"
  shows "\<exists>wh ps. candidatos_where pf ep query = (wh, ps) \<and> SELECT pf wh ps view = Inr rows"
  using assms by (auto simp: list_candidatos_def answer_rows_def split: prod.splits sum.splits)

text \<open>
  Claim C6, as amended. For every combination of filters, whenever GET /api/candidatos
  answers rows (either version of the handler), they are rows of the view ordered by
  \<open>fecha\<close> descending, with \<open>id\<close> descending among equal dates; the demo server's
  GET /api/empleados over the in-memory array has no ordering step and answers the
  matching records in the order in which the array stores them.
\<close>

theorem list_order:
  "(list_candidatos pf ep query view = Json rows \<longrightarrow>
      sorted_wrt (\<lambda>a b. v_fecha b < v_fecha a \<or> v_fecha a = v_fecha b \<and> v_id b \<le> v_id a) rows
      \<and> mset rows \<subseteq># mset view)
   \<and> (\<exists>keep. list_empleados_memoria pf query empleados = Json (filter keep empleados))"
proof (rule conjI)
  show "list_candidatos pf ep query view = Json rows \<longrightarrow>
      sorted_wrt (\<lambda>a b. v_fecha b < v_fecha a \<or> v_fecha a = v_fecha b \<and> v_id b \<le> v_id a) rows
      \<and> mset rows \<subseteq># mset view"
  proof
    assume "list_candidatos pf ep query view = Json rows"
    then obtain wh ps where "SELECT pf wh ps view = Inr rows"
      using list_candidatos_Json by blast
    then have rows: "rows = ORDER_BY_fecha_DESC_id_DESC (filter (\<lambda>r. holds_all pf ps wh r = Inr True) view)"
      by (rule SELECT_result)
    show "sorted_wrt (\<lambda>a b. v_fecha b < v_fecha a \<or> v_fecha a = v_fecha b \<and> v_id b \<le> v_id a) rows
      \<and> mset rows \<subseteq># mset view"
      unfolding rows by (simp add: ORDER_BY_sorted ORDER_BY_mset)
  qed
next
  have "list_empleados_memoria pf query empleados = Json (filter (\<lambda>e. True) empleados)
      \<or> list_empleados_memoria pf query empleados =
          Json (filter (match_fecha pf (the (query ''ano'')) (the (query ''mes''))) empleados)
      \<or> list_empleados_memoria pf query empleados =
          Json (filter (match_grupo pf (the (query ''grupoInicio'')) (the (query ''grupoFin''))) empleados)
      \<or> list_empleados_memoria pf query empleados =
          Json (filter (\<lambda>e. match_fecha pf (the (query ''ano'')) (the (query ''mes'')) e
                     \<and> match_grupo pf (the (query ''grupoInicio'')) (the (query ''grupoFin'')) e) empleados)"
    by (simp add: list_empleados_memoria_def Let_def conj_commute)
  then show "\<exists>keep. list_empleados_memoria pf query empleados = Json (filter keep empleados)"
    by blast
qed

text \<open>A small view and the platform the examples run on.\<close>

definition view0 :: "vrow list" where
  "view0 =
     [\<lparr>v_id = 1, v_grupo = Some ''51'', v_estado = Some ''Aprobado'', v_fecha = (2024, 8, 1)\<rparr>,
      \<lparr>v_id = 2, v_grupo = Some ''A'', v_estado = Some ''En Revision'', v_fecha = (2024, 9, 12)\<rparr>,
      \<lparr>v_id = 3, v_grupo = Some ''52'', v_estado = None, v_fecha = (2024, 8, 1)\<rparr>,
      \<lparr>v_id = 4, v_grupo = None, v_estado = Some ''Cancelado'', v_fecha = (2023, 12, 30)\<rparr>]"

definition pf0 :: platform where
  "pf0 = ascii_platform Number_of_digits"

lemma list_all_2024:
  "list_candidatos pf0 EstadoLower (Map.empty(''ano'' \<mapsto> ''2024'')) view0 = Json [view0 ! 1, view0 ! 2, view0 ! 0]"
  by (simp add: list_candidatos_def candidatos_where_def with_default_def truthy_def push1_def
      SELECT_def param_at_def answer_rows_def number_at_def pf0_def ascii_platform_def
      Number_of_digits_def all_digits_def is_digit_def undec_def digit_val_def view0_def
      ORDER_BY_fecha_DESC_id_DESC_def less_eq_prod_def)

theorem list_order_witness:
  "list_candidatos pf0 EstadoLower (Map.empty(''ano'' \<mapsto> ''2024'')) view0 = Json [view0 ! 1, view0 ! 2, view0 ! 0]
   \<and> sorted_wrt (\<lambda>a b. v_fecha b < v_fecha a \<or> v_fecha a = v_fecha b \<and> v_id b \<le> v_id a)
        [view0 ! 1, view0 ! 2, view0 ! 0]
   \<and> map v_id [view0 ! 1, view0 ! 2, view0 ! 0] = [2, 3, 1]"
  using list_order [of pf0 EstadoLower "Map.empty(''ano'' \<mapsto> ''2024'')" view0 "[view0 ! 1, view0 ! 2, view0 ! 0]"]
    list_all_2024
  by (simp add: view0_def)

text \<open>
  The claim as first stated covers the in-memory list endpoint too, and fails there: with
  no filter the demo array comes back as stored, earliest date first.
\<close>

theorem memoria_not_sorted_counterexample:
  "list_empleados_memoria pf0 Map.empty empleados_demo = Json empleados_demo
   \<and> map (\<lambda>e. (m_id e, m_fecha e)) empleados_demo = [(1, ''2024-08-01''), (2, ''2024-08-05''), (3, ''2024-09-12'')]
   \<and> \<not> sorted_wrt (\<lambda>a b. m_fecha b < m_fecha a \<or> m_fecha a = m_fecha b \<and> m_id b \<le> m_id a) empleados_demo"
  by (simp add: list_empleados_memoria_def truthy_def empleados_demo_def)

lemma candidatos_where_cases:
  "candidatos_where pf ep query =
     (let ano = with_default ''TODOS'' (query ''ano'');
          mes = with_default ''TODOS'' (query ''mes'');
          n1 = (if ano \<noteq> ''TODOS'' then 1 else 0);
          n2 = n1 + (if mes \<noteq> ''TODOS'' then 1 else 0);
          n3 = n2 + (if truthy (query ''estado'') then 1 else 0)
      in ((if ano \<noteq> ''TODOS'' then [YearEq 1] else [])
          @ (if mes \<noteq> ''TODOS'' then [MonthEq (n1 + 1)] else [])
          @ (if truthy (query ''estado'') then [ep (n2 + 1)] else [])
          @ (if truthy (query ''grupoInicio'') \<and> truthy (query ''grupoFin'')
             then [GrupoGuarded (n3 + 1) (n3 + 2)] else []),
          (if ano \<noteq> ''TODOS'' then [PNumber (Number pf ano)] else [])
          @ (if mes \<noteq> ''TODOS'' then [PNumber (Number pf mes)] else [])
          @ (if truthy (query ''estado'') then [PText (the (query ''estado''))] else [])
          @ (if truthy (query ''grupoInicio'') \<and> truthy (query ''grupoFin'')
             then [PNumber (Number pf (the (query ''grupoInicio''))), PNumber (Number pf (the (query ''grupoFin'')))]
             else [])))"
  by (simp add: candidatos_where_def Let_def push1_def push2_def)

text \<open>
  Claim C10. GET /api/candidatos, in both versions of the handler: the assembled WHERE
  clause contains the group-range predicate exactly when \<open>grupoInicio\<close> and \<open>grupoFin\<close>
  are both present and non-empty; otherwise (one bound alone, or none) the predicates, the
  parameters and the answer are those of the same request without any group parameter.
\<close>

theorem group_range_needs_both_bounds:
  assumes "ep = EstadoLower \<or> ep = EstadoRaw"
  shows "((\<exists>i j. GrupoGuarded i j \<in> set (fst (candidatos_where pf ep query)))
            \<longleftrightarrow> truthy (query ''grupoInicio'') \<and> truthy (query ''grupoFin''))
       \<and> (\<not> (truthy (query ''grupoInicio'') \<and> truthy (query ''grupoFin'')) \<longrightarrow>
            candidatos_where pf ep query
              = candidatos_where pf ep (query(''grupoInicio'' := None, ''grupoFin'' := None))
            \<and> list_candidatos pf ep query view
              = list_candidatos pf ep (query(''grupoInicio'' := None, ''grupoFin'' := None)) view)"
proof (rule conjI)
  show "(\<exists>i j. GrupoGuarded i j \<in> set (fst (candidatos_where pf ep query)))
            \<longleftrightarrow> truthy (query ''grupoInicio'') \<and> truthy (query ''grupoFin'')"
    using assms by (auto simp: candidatos_where_cases Let_def)
next
  show "\<not> (truthy (query ''grupoInicio'') \<and> truthy (query ''grupoFin'')) \<longrightarrow>
            candidatos_where pf ep query
              = candidatos_where pf ep (query(''grupoInicio'' := None, ''grupoFin'' := None))
            \<and> list_candidatos pf ep query view
              = list_candidatos pf ep (query(''grupoInicio'' := None, ''grupoFin'' := None)) view"
  proof
    assume a: "\<not> (truthy (query ''grupoInicio'') \<and> truthy (query ''grupoFin''))"
    have w: "candidatos_where pf ep query
              = candidatos_where pf ep (query(''grupoInicio'' := None, ''grupoFin'' := None))"
      using a by (simp add: candidatos_where_cases Let_def truthy_def)
    then show "candidatos_where pf ep query
              = candidatos_where pf ep (query(''grupoInicio'' := None, ''grupoFin'' := None))
            \<and> list_candidatos pf ep query view
              = list_candidatos pf ep (query(''grupoInicio'' := None, ''grupoFin'' := None)) view"
      by (simp add: list_candidatos_def)
  qed
qed

theorem group_range_needs_both_bounds_witness:
  "candidatos_where pf0 EstadoLower (Map.empty(''grupoInicio'' \<mapsto> ''51'')) = ([], [])
   \<and> list_candidatos pf0 EstadoLower (Map.empty(''grupoInicio'' \<mapsto> ''51'')) view0
       = list_candidatos pf0 EstadoLower Map.empty view0
   \<and> fst (candidatos_where pf0 EstadoLower (Map.empty(''grupoInicio'' \<mapsto> ''51'', ''grupoFin'' \<mapsto> ''53'')))
       = [GrupoGuarded 1 2]"
proof -
  have one: "\<not> (truthy ((Map.empty(''grupoInicio'' \<mapsto> ''51'')) ''grupoInicio'')
               \<and> truthy ((Map.empty(''grupoInicio'' \<mapsto> ''51'')) ''grupoFin''))"
    by (simp add: truthy_def)
  have upd: "(Map.empty(''grupoInicio'' \<mapsto> ''51''))(''grupoInicio'' := None, ''grupoFin'' := None) = Map.empty"
    by auto
  have "candidatos_where pf0 EstadoLower Map.empty = ([], [])"
    by (simp add: candidatos_where_cases with_default_def truthy_def)
  moreover have "fst (candidatos_where pf0 EstadoLower (Map.empty(''grupoInicio'' \<mapsto> ''51'', ''grupoFin'' \<mapsto> ''53'')))
       = [GrupoGuarded 1 2]"
    by (simp add: candidatos_where_cases with_default_def truthy_def)
  ultimately show ?thesis
    using group_range_needs_both_bounds [of EstadoLower pf0 "Map.empty(''grupoInicio'' \<mapsto> ''51'')" view0] one upd
    by simp
qed

lemma sentinel_same_as_omitted:
  "candidatos_where pf ep (query(''ano'' \<mapsto> ''TODOS'')) = candidatos_where pf ep (query(''ano'' := None))"
  "candidatos_where pf ep (query(''mes'' \<mapsto> ''TODOS'')) = candidatos_where pf ep (query(''mes'' := None))"
  "candidatos_where pf ep (query(''estado'' \<mapsto> [])) = candidatos_where pf ep (query(''estado'' := None))"
  "candidatos_where pf ep (query(''grupoInicio'' \<mapsto> [])) = candidatos_where pf ep (query(''grupoInicio'' := None))"
  "candidatos_where pf ep (query(''grupoFin'' \<mapsto> [])) = candidatos_where pf ep (query(''grupoFin'' := None))"
  by (simp_all add: candidatos_where_cases with_default_def truthy_def Let_def)

lemma dec_1: "dec 1 = ''1''" "dec (Suc 0) = ''1''"
  by (simp_all add: dec.simps [of 1] dec.simps [of "Suc 0"] digit_char_def)

lemma normalizeQueryValue_TODOS: "normalizeQueryValue pf0 ''TODOS'' = ''todos''"
  by (simp add: normalizeQueryValue_def stripDiacritics_def pf0_def ascii_platform_def
      strip_blanks_def is_space_def ascii_lower_def)

lemma Number_todos: "Number pf0 ''todos'' = NaN"
  by (simp add: pf0_def ascii_platform_def Number_of_digits_def all_digits_def is_digit_def)

lemma view0_all:
  "list_candidatos pf0 EstadoRaw Map.empty view0 = Json [view0 ! 1, view0 ! 2, view0 ! 0, view0 ! 3]"
  by (simp add: list_candidatos_def candidatos_where_cases with_default_def truthy_def
      SELECT_def answer_rows_def view0_def ORDER_BY_fecha_DESC_id_DESC_def lex_pair_le less_prod_def)

text \<open>
  Claim C3, on the single-file server that installs the query normalisation middleware:
  the request \<open>?ano=TODOS\<close> reaches the handler as \<open>ano = "todos"\<close>, which is not the
  sentinel \<open>"TODOS"\<close> the handler compares with. The handler assembles
  \<open>WHERE EXTRACT(YEAR  FROM fecha) = $1\<close> with the parameter \<open>Number("todos")\<close>, NaN, and
  answers no row, where the request without \<open>ano\<close> assembles no WHERE clause and answers
  every row. The controller's handler behind the same middleware answers no row either.
  (Without the middleware the sentinel and the omission assemble the same clause:
  \<open>sentinel_same_as_omitted\<close>.)
\<close>

theorem server_sentinel_lowercased:
  "candidatos_where pf0 EstadoRaw (normalize_query pf0 (Map.empty(''ano'' \<mapsto> ''TODOS''))) = ([YearEq 1], [PNumber NaN])
   \<and> whereSQL [] [YearEq 1] = ''WHERE EXTRACT(YEAR  FROM fecha) = $1''
   \<and> candidatos_where pf0 EstadoRaw (normalize_query pf0 Map.empty) = ([], [])
   \<and> whereSQL [] [] = []
   \<and> server_list_candidatos pf0 (Map.empty(''ano'' \<mapsto> ''TODOS'')) view0 = Json []
   \<and> server_list_candidatos pf0 Map.empty view0 = Json [view0 ! 1, view0 ! 2, view0 ! 0, view0 ! 3]
   \<and> list_candidatos pf0 EstadoLower (normalize_query pf0 (Map.empty(''ano'' \<mapsto> ''TODOS''))) view0 = Json []"
proof -
  have q1: "normalize_query pf0 (Map.empty(''ano'' \<mapsto> ''TODOS'')) = Map.empty(''ano'' \<mapsto> ''todos'')"
    by (auto simp: normalize_query_def normalizeQueryValue_TODOS)
  have q0: "normalize_query pf0 Map.empty = Map.empty"
    by (simp add: normalize_query_def)
  have w1: "candidatos_where pf0 EstadoRaw (Map.empty(''ano'' \<mapsto> ''todos'')) = ([YearEq 1], [PNumber NaN])"
    by (simp add: candidatos_where_cases with_default_def truthy_def Number_todos)
  have w0: "candidatos_where pf0 EstadoRaw Map.empty = ([], [])"
    by (simp add: candidatos_where_cases with_default_def truthy_def)
  have r1: "list_candidatos pf0 EstadoRaw (Map.empty(''ano'' \<mapsto> ''todos'')) view0 = Json []"
    by (simp add: list_candidatos_def w1 SELECT_def param_at_def number_at_def answer_rows_def view0_def
        ORDER_BY_fecha_DESC_id_DESC_def)
  have s: "whereSQL [] [YearEq 1] = ''WHERE EXTRACT(YEAR  FROM fecha) = $1''"
    by (simp add: whereSQL_def dec_1)
  have s0: "whereSQL [] [] = []"
    by (simp add: whereSQL_def)
  have w2: "candidatos_where pf0 EstadoLower (Map.empty(''ano'' \<mapsto> ''todos'')) = ([YearEq 1], [PNumber NaN])"
    by (simp add: candidatos_where_cases with_default_def truthy_def Number_todos)
  have r2: "list_candidatos pf0 EstadoLower (Map.empty(''ano'' \<mapsto> ''todos'')) view0 = Json []"
    by (simp add: list_candidatos_def w2 SELECT_def param_at_def number_at_def answer_rows_def view0_def
        ORDER_BY_fecha_DESC_id_DESC_def)
  show ?thesis
    using s s0 w1 w0 by (simp add: server_list_candidatos_def q1 q0 r1 r2 view0_all)
qed

lemma guarded_range_excludes_non_digits:
  "v_grupo r = Some g \<Longrightarrow> \<not> all_digits g \<Longrightarrow> holds pf ps (GrupoGuarded i j) r = Inr False"
  by simp

definition never_raises :: "pred \<Rightarrow> bool" where
  "never_raises p = (case p of GrupoGuarded i j \<Rightarrow> False | GrupoCast i j \<Rightarrow> False | _ \<Rightarrow> True)"

lemma never_raises_holds: "never_raises p \<Longrightarrow> \<exists>b. holds pf ps p r = Inr b"
  by (cases p) (auto simp: never_raises_def split: option.splits)

lemma holds_all_append_False:
  assumes "\<forall>p \<in> set wh. never_raises p" "holds_all pf ps wh' r = Inr False"
  shows "holds_all pf ps (wh @ wh') r = Inr False"
  using assms
proof (induction wh)
  case Nil
  then show ?case by simp
next
  case (Cons p wh)
  then obtain b where "holds pf ps p r = Inr b"
    using never_raises_holds [of p pf ps r] by auto
  then show ?case
    using Cons by (cases b) simp_all
qed

lemma scan_drop_rejected:
  assumes "\<forall>r \<in> set rows. \<not> good r \<longrightarrow> holds_all pf ps wh r = Inr False"
  shows "scan pf ps wh rows = scan pf ps wh (filter good rows)"
  using assms by (induction rows) (auto split: sum.splits)

definition grupo_digits :: "vrow \<Rightarrow> bool" where
  "grupo_digits r = (case v_grupo r of None \<Rightarrow> False | Some g \<Rightarrow> all_digits g)"

lemma candidatos_guard_rejects:
  assumes "ep = EstadoLower \<or> ep = EstadoRaw"
    and "truthy (query ''grupoInicio'') \<and> truthy (query ''grupoFin'')"
    and "candidatos_where pf ep query = (wh, ps)"
    and "\<not> grupo_digits r"
  shows "holds_all pf ps wh r = Inr False"
proof -
  obtain wh0 i j where wh: "wh = wh0 @ [GrupoGuarded i j]" and nr: "\<forall>p \<in> set wh0. never_raises p"
    using assms(1,2,3)
    by (auto simp: candidatos_where_cases Let_def never_raises_def split: if_splits)
  have "holds_all pf ps [GrupoGuarded i j] r = Inr False"
    using assms(4) by (auto simp: grupo_digits_def split: option.splits)
  then show ?thesis
    unfolding wh using nr by (rule holds_all_append_False [rotated])
qed

lemma list_candidatos_guard:
  assumes "ep = EstadoLower \<or> ep = EstadoRaw"
    and "truthy (query ''grupoInicio'') \<and> truthy (query ''grupoFin'')"
  shows "list_candidatos pf ep query view = list_candidatos pf ep query (filter grupo_digits view)"
proof -
  obtain wh ps where w: "candidatos_where pf ep query = (wh, ps)"
    by (cases "candidatos_where pf ep query")
  have "scan pf ps wh view = scan pf ps wh (filter grupo_digits view)"
    by (rule scan_drop_rejected) (use candidatos_guard_rejects [OF assms w] in blast)
  then show ?thesis
    by (simp add: list_candidatos_def w SELECT_def split: option.split)
qed

lemma CAST_INT_A: "CAST_INT ''A'' = Inl invalid_text_representation"
  by (simp add: CAST_INT_def strip_blanks_def is_space_def all_digits_def is_digit_def)

lemma CAST_INT_51: "CAST_INT ''51'' = Inr 51"
  by (simp add: CAST_INT_def strip_blanks_def is_space_def all_digits_def is_digit_def undec_def digit_val_def in_int4_def)

lemma CAST_INT_52: "CAST_INT ''52'' = Inr 52"
  by (simp add: CAST_INT_def strip_blanks_def is_space_def all_digits_def is_digit_def undec_def digit_val_def in_int4_def)

definition query_51_53 :: jsobj where
  "query_51_53 = Map.empty(''grupoInicio'' \<mapsto> ''51'', ''grupoFin'' \<mapsto> ''53'')"

lemma Number_51_53: "Number pf0 ''51'' = Fin 51" "Number pf0 ''53'' = Fin 53"
  by (simp_all add: pf0_def ascii_platform_def Number_of_digits_def all_digits_def is_digit_def undec_def digit_val_def)

text \<open>
  Claim C4, on GET /api/empleados over PostgreSQL: its range predicate casts \<open>grupo\<close>
  with no pattern test, so with both bounds present the row whose \<open>grupo\<close> is \<open>A\<close> makes
  the cast fail and the request answers 500, although the same table is listed without
  the range filter. GET /api/candidatos on the same rows and bounds leaves that row out
  and answers the two rows in range (in general: \<open>list_candidatos_guard\<close>).
\<close>

theorem empleados_unguarded_cast_fails:
  "empleados_where pf0 query_51_53 = ([GrupoCast 1 2], [PNumber (Fin 51), PNumber (Fin 53)])
   \<and> map v_grupo view0 = [Some ''51'', Some ''A'', Some ''52'', None]
   \<and> list_empleados pf0 query_51_53 view0 = Status 500
   \<and> list_empleados pf0 Map.empty view0 = Json [view0 ! 1, view0 ! 2, view0 ! 0, view0 ! 3]
   \<and> list_candidatos pf0 EstadoLower query_51_53 view0 = Json [view0 ! 2, view0 ! 0]"
proof -
  have w: "empleados_where pf0 query_51_53 = ([GrupoCast 1 2], [PNumber (Fin 51), PNumber (Fin 53)])"
    by (simp add: empleados_where_def query_51_53_def truthy_def push2_def Number_51_53)
  have e: "list_empleados pf0 query_51_53 view0 = Status 500"
    by (simp add: list_empleados_def w SELECT_def param_at_def answer_rows_def view0_def
        CAST_INT_A CAST_INT_51 CAST_INT_52 int_at_def number_at_def)
  have e0: "list_empleados pf0 Map.empty view0 = Json [view0 ! 1, view0 ! 2, view0 ! 0, view0 ! 3]"
    by (simp add: list_empleados_def empleados_where_def truthy_def
      SELECT_def answer_rows_def view0_def ORDER_BY_fecha_DESC_id_DESC_def lex_pair_le less_prod_def)
  have wc: "candidatos_where pf0 EstadoLower query_51_53 = ([GrupoGuarded 1 2], [PNumber (Fin 51), PNumber (Fin 53)])"
    by (simp add: candidatos_where_cases query_51_53_def with_default_def truthy_def Number_51_53)
  have c: "list_candidatos pf0 EstadoLower query_51_53 view0 = Json [view0 ! 2, view0 ! 0]"
    by (simp add: list_candidatos_def wc SELECT_def param_at_def answer_rows_def view0_def
        all_digits_def is_digit_def
        CAST_INT_A CAST_INT_51 CAST_INT_52 int_at_def number_at_def
        ORDER_BY_fecha_DESC_id_DESC_def lex_pair_le less_prod_def)
  show ?thesis
    using w e e0 c by (simp add: view0_def)
qed

section \<open>Automatic codes: \<open>slugify\<close> and \<open>generateUniqueCode\<close>\<close>

text \<open>
  \<open>slugify\<close> chains the string methods in the order of the source. After the upper-casing
  only \<open>A-Z\<close> and \<open>0-9\<close> survive the first \<open>replace\<close>, where every maximal run of other
  characters becomes one hyphen; the second \<open>replace\<close> removes the hyphens at both ends;
  \<open>slice(0, 32)\<close> keeps the first 32 characters.
\<close>

definition is_AZ09 :: "char \<Rightarrow> bool" where
  "is_AZ09 c \<longleftrightarrow> c \<in> set ''ABCDEFGHIJKLMNOPQRSTUVWXYZ0123456789''"

function replace_runs :: "string \<Rightarrow> string" where
  "replace_runs [] = []"
| "replace_runs (c # cs) =
     (if is_AZ09 c then c # replace_runs cs
      else CHR ''-'' # replace_runs (dropWhile (\<lambda>d. \<not> is_AZ09 d) cs))"
  by pat_completeness auto
termination
  by (relation "measure length") (auto simp: less_Suc_eq_le length_dropWhile_le)

definition trim_hyphens :: "string \<Rightarrow> string" where
  "trim_hyphens s = rev (dropWhile (\<lambda>c. c = CHR ''-'') (rev (dropWhile (\<lambda>c. c = CHR ''-'') s)))"

definition slugify :: "platform \<Rightarrow> string \<Rightarrow> string" where
  "slugify pf str =
     take 32 (trim_hyphens (replace_runs (toUpperCase pf (strip_marks pf (normalize pf ''NFKD'' str)))))"

text \<open>
  \<open>generateUniqueCode(table, baseCode)\<close>: \<open>codes\<close> is the \<open>code\<close> column of the table, which
  the probe \<open>SELECT 1 FROM table WHERE code=$1 LIMIT 1\<close> searches. The loop \<open>for(;;)\<close> is
  the recursion of \<open>probe\<close> on the current \<open>code\<close> (here \<open>candidate\<close>) and the counter \<open>n\<close>.
\<close>

function probe :: "string list \<Rightarrow> string \<Rightarrow> string \<Rightarrow> nat \<Rightarrow> string" where
  "probe codes baseCode candidate n =
     (if candidate \<notin> set codes then candidate
      else probe codes baseCode (baseCode @ ''-'' @ dec (n + 1)) (n + 1))"
  by pat_completeness auto

definition suffixed_beyond :: "string list \<Rightarrow> string \<Rightarrow> nat \<Rightarrow> string set" where
  "suffixed_beyond codes baseCode n = {c \<in> set codes. \<exists>k > n. c = baseCode @ ''-'' @ dec k}"

lemma suffixed_beyond_finite: "finite (suffixed_beyond codes baseCode n)"
  by (simp add: suffixed_beyond_def)

lemma suffixed_beyond_mono: "suffixed_beyond codes baseCode (Suc n) \<subseteq> suffixed_beyond codes baseCode n"
  unfolding suffixed_beyond_def using Suc_lessD by blast

lemma suffixed_beyond_next:
  assumes "baseCode @ ''-'' @ dec (Suc n) \<in> set codes"
  shows "suffixed_beyond codes baseCode (Suc n) \<subset> suffixed_beyond codes baseCode n"
proof -
  let ?c = "baseCode @ ''-'' @ dec (Suc n)"
  have "?c \<in> suffixed_beyond codes baseCode n"
    using assms by (auto simp: suffixed_beyond_def)
  moreover have "?c \<notin> suffixed_beyond codes baseCode (Suc n)"
    by (auto simp: suffixed_beyond_def dest: dec_inj)
  ultimately show ?thesis
    using suffixed_beyond_mono [of codes baseCode n] by blast
qed

termination probe
proof (relation "measure (\<lambda>(codes, baseCode, candidate, n).
          2 * card (suffixed_beyond codes baseCode n) + (if candidate \<in> set codes then 1 else 0))")
  show "wf (measure (\<lambda>(codes, baseCode, candidate, n).
          2 * card (suffixed_beyond codes baseCode n) + (if candidate \<in> set codes then 1 else 0)))"
    by simp
next
  fix codes :: "string list" and baseCode candidate :: string and n :: nat
  assume "\<not> candidate \<notin> set codes"
  then have in_codes: "candidate \<in> set codes" by simp
  show "((codes, baseCode, baseCode @ ''-'' @ dec (n + 1), n + 1), (codes, baseCode, candidate, n))
        \<in> measure (\<lambda>(codes, baseCode, candidate, n).
          2 * card (suffixed_beyond codes baseCode n) + (if candidate \<in> set codes then 1 else 0))"
  proof (cases "baseCode @ ''-'' @ dec (Suc n) \<in> set codes")
    case True
    then have "card (suffixed_beyond codes baseCode (Suc n)) < card (suffixed_beyond codes baseCode n)"
      by (intro psubset_card_mono suffixed_beyond_finite suffixed_beyond_next)
    then show ?thesis
      using in_codes True by simp
  next
    case False
    have "card (suffixed_beyond codes baseCode (Suc n)) \<le> card (suffixed_beyond codes baseCode n)"
      by (intro card_mono suffixed_beyond_finite suffixed_beyond_mono)
    then show ?thesis
      using in_codes False by simp
  qed
qed

declare probe.simps [simp del]

definition generateUniqueCode :: "string list \<Rightarrow> string \<Rightarrow> string" where
  "generateUniqueCode codes baseCode = probe codes baseCode (if baseCode \<noteq> [] then baseCode else ''ITEM'') 1"

subsection \<open>POST /api/sites\<close>

record site =
  site_id :: int
  site_code :: string
  site_name :: string

text \<open>
  The handler as the single-file server defines it: the code is generated from the name.
  \<open>body\<close> is \<open>req.body\<close> as the handler receives it; \<open>fault\<close> is a failure of the
  \<open>INSERT\<close>, answered with 500.
\<close>

definition post_sites :: "platform \<Rightarrow> js_error option \<Rightarrow> jsobj \<Rightarrow> site list pg \<Rightarrow> site response \<times> site list pg" where
  "post_sites pf fault body s =
     (if \<not> truthy (body ''name'') then (Status 400, s)
      else
        (let name = the (body ''name'');
             base = slugify pf name;
             code = generateUniqueCode (map site_code (tables s)) (if base \<noteq> [] then base else ''SITE'')
         in case fault of
              Some e \<Rightarrow> (Status 500, s)
            | None \<Rightarrow>
                (let row = \<lparr>site_id = seq s, site_code = code, site_name = trim pf name\<rparr>
                 in (Json row, s\<lparr>tables := tables s @ [row], seq := seq s + 1\<rparr>))))"

subsection \<open>Properties of the generated codes\<close>

lemma replace_runs_alphabet: "set (replace_runs s) \<subseteq> {c. is_AZ09 c} \<union> {CHR ''-''}"
  by (induction s rule: replace_runs.induct) auto

lemma trim_hyphens_subset: "set (trim_hyphens s) \<subseteq> set s"
proof
  fix x
  assume "x \<in> set (trim_hyphens s)"
  then have "x \<in> set (dropWhile (\<lambda>c. c = CHR ''-'') (rev (dropWhile (\<lambda>c. c = CHR ''-'') s)))"
    by (simp add: trim_hyphens_def)
  then have "x \<in> set (rev (dropWhile (\<lambda>c. c = CHR ''-'') s))"
    by (rule set_dropWhileD)
  then have "x \<in> set (dropWhile (\<lambda>c. c = CHR ''-'') s)"
    by simp
  then show "x \<in> set s"
    by (rule set_dropWhileD)
qed

lemma slugify_shape:
  "length (slugify pf str) \<le> 32 \<and> set (slugify pf str) \<subseteq> {c. is_AZ09 c} \<union> {CHR ''-''}"
proof
  show "length (slugify pf str) \<le> 32"
    by (simp add: slugify_def)
next
  let ?u = "toUpperCase pf (strip_marks pf (normalize pf ''NFKD'' str))"
  have "set (slugify pf str) \<subseteq> set (trim_hyphens (replace_runs ?u))"
    unfolding slugify_def by (rule set_take_subset)
  also have "\<dots> \<subseteq> set (replace_runs ?u)"
    by (rule trim_hyphens_subset)
  also have "\<dots> \<subseteq> {c. is_AZ09 c} \<union> {CHR ''-''}"
    by (rule replace_runs_alphabet)
  finally show "set (slugify pf str) \<subseteq> {c. is_AZ09 c} \<union> {CHR ''-''}" .
qed

lemma probe_fresh: "probe codes baseCode candidate n \<notin> set codes"
proof (induction codes baseCode candidate n rule: probe.induct)
  case (1 codes baseCode candidate n)
  show ?case
  proof (cases "candidate \<in> set codes")
    case True
    then show ?thesis
      using 1 by (simp add: probe.simps [of codes baseCode candidate n])
  next
    case False
    then show ?thesis
      by (simp add: probe.simps [of codes baseCode candidate n])
  qed
qed

lemma dec_2_3: "dec (Suc (Suc 0)) = ''2''" "dec (Suc (Suc (Suc 0))) = ''3''"
proof -
  have "dec 2 = ''2''" "dec 3 = ''3''"
    by (simp_all add: dec.simps [of 2] dec.simps [of 3] digit_char_def)
  then show "dec (Suc (Suc 0)) = ''2''" "dec (Suc (Suc (Suc 0))) = ''3''"
    by (simp_all add: numeral_2_eq_2 numeral_3_eq_3)
qed

lemma probe_stop: "candidate \<notin> set codes \<Longrightarrow> probe codes baseCode candidate n = candidate"
  by (simp add: probe.simps [of codes baseCode candidate n])

lemma probe_step:
  "candidate \<in> set codes \<Longrightarrow>
     probe codes baseCode candidate n = probe codes baseCode (baseCode @ ''-'' @ dec (Suc n)) (Suc n)"
  by (simp add: probe.simps [of codes baseCode candidate n])

lemma generateUniqueCode_start: "b \<noteq> [] \<Longrightarrow> generateUniqueCode codes b = probe codes b b (Suc 0)"
  by (simp add: generateUniqueCode_def)

lemma generateUniqueCode_free:
  assumes "b \<noteq> []" "b \<notin> set codes"
  shows "generateUniqueCode codes b = b"
  using assms by (simp add: generateUniqueCode_start probe_stop)

lemma generateUniqueCode_second:
  assumes "b \<noteq> []" "b \<in> set codes" "b @ ''-2'' \<notin> set codes"
  shows "generateUniqueCode codes b = b @ ''-2''"
proof -
  have "generateUniqueCode codes b = probe codes b b (Suc 0)"
    using assms(1) by (rule generateUniqueCode_start)
  also have "\<dots> = probe codes b (b @ ''-'' @ dec (Suc (Suc 0))) (Suc (Suc 0))"
    using assms(2) by (rule probe_step)
  also have "\<dots> = probe codes b (b @ ''-2'') (Suc (Suc 0))"
    by (simp add: dec_2_3)
  also have "\<dots> = b @ ''-2''"
    using assms(3) by (rule probe_stop)
  finally show ?thesis .
qed

lemma generateUniqueCode_third:
  assumes "b \<noteq> []" "b \<in> set codes" "b @ ''-2'' \<in> set codes" "b @ ''-3'' \<notin> set codes"
  shows "generateUniqueCode codes b = b @ ''-3''"
proof -
  have "generateUniqueCode codes b = probe codes b b (Suc 0)"
    using assms(1) by (rule generateUniqueCode_start)
  also have "\<dots> = probe codes b (b @ ''-'' @ dec (Suc (Suc 0))) (Suc (Suc 0))"
    using assms(2) by (rule probe_step)
  also have "\<dots> = probe codes b (b @ ''-2'') (Suc (Suc 0))"
    by (simp add: dec_2_3)
  also have "\<dots> = probe codes b (b @ ''-'' @ dec (Suc (Suc (Suc 0)))) (Suc (Suc (Suc 0)))"
    using assms(3) by (rule probe_step)
  also have "\<dots> = probe codes b (b @ ''-3'') (Suc (Suc (Suc 0)))"
    by (simp add: dec_2_3)
  also have "\<dots> = b @ ''-3''"
    using assms(4) by (rule probe_stop)
  finally show ?thesis .
qed

subsection \<open>The built-ins on Spanish text\<close>

text \<open>
  A second instance, to run \<open>slugify\<close> on accented names. A string is the list of the
  bytes of its UTF-8 encoding. \<open>normalize("NFKD")\<close> and \<open>normalize("NFD")\<close> on the accented
  letters of Spanish: the letter, two bytes of which the first is \<open>0xC3\<close>, becomes its base
  letter followed by the combining mark (U+0301 acute, U+0308 diaeresis, U+0303 tilde);
  ASCII text is unchanged. \<open>strip_marks\<close> removes the characters U+0300 to U+036F,
  whose encodings are the two bytes \<open>0xCC 0x80\<close> to \<open>0xCD 0xAF\<close>.
\<close>

definition decomposed :: "(char \<times> string) list" where
  "decomposed =
     [(CHR 0xA1, ''a'' @ [CHR 0xCC, CHR 0x81]), (CHR 0xA9, ''e'' @ [CHR 0xCC, CHR 0x81]),
      (CHR 0xAD, ''i'' @ [CHR 0xCC, CHR 0x81]), (CHR 0xB3, ''o'' @ [CHR 0xCC, CHR 0x81]),
      (CHR 0xBA, ''u'' @ [CHR 0xCC, CHR 0x81]), (CHR 0xBC, ''u'' @ [CHR 0xCC, CHR 0x88]),
      (CHR 0xB1, ''n'' @ [CHR 0xCC, CHR 0x83]),
      (CHR 0x81, ''A'' @ [CHR 0xCC, CHR 0x81]), (CHR 0x89, ''E'' @ [CHR 0xCC, CHR 0x81]),
      (CHR 0x8D, ''I'' @ [CHR 0xCC, CHR 0x81]), (CHR 0x93, ''O'' @ [CHR 0xCC, CHR 0x81]),
      (CHR 0x9A, ''U'' @ [CHR 0xCC, CHR 0x81]), (CHR 0x9C, ''U'' @ [CHR 0xCC, CHR 0x88]),
      (CHR 0x91, ''N'' @ [CHR 0xCC, CHR 0x83])]"

fun decompose :: "string \<Rightarrow> string" where
  "decompose (a # b # r) =
     (if a = CHR 0xC3
      then (case map_of decomposed b of Some d \<Rightarrow> d | None \<Rightarrow> [a, b]) @ decompose r
      else a # decompose (b # r))"
| "decompose r = r"

definition is_combining :: "char \<Rightarrow> char \<Rightarrow> bool" where
  "is_combining a b \<longleftrightarrow>
     a = CHR 0xCC \<and> CHR 0x80 \<le> b \<and> b \<le> CHR 0xBF
     \<or> a = CHR 0xCD \<and> CHR 0x80 \<le> b \<and> b \<le> CHR 0xAF"

fun strip_combining :: "string \<Rightarrow> string" where
  "strip_combining (a # b # r) =
     (if is_combining a b then strip_combining r else a # strip_combining (b # r))"
| "strip_combining r = r"

definition pf_es :: platform where
  "pf_es =
     \<lparr>Number = Number_of_digits, trim = strip_blanks, toLowerCase = map ascii_lower,
      toUpperCase = map ascii_upper,
      normalize = (\<lambda>form s. if form = ''NFKD'' \<or> form = ''NFD'' then decompose s else s),
      strip_marks = strip_combining, LOWER = map ascii_lower\<rparr>"

subsection \<open>Words and separators\<close>

text \<open>
  The normalisation in the words of its description. A text is a run \<open>lead\<close> of
  characters other than \<open>A-Z\<close> and \<open>0-9\<close>, then blocks: each a word, which is a non-empty
  run of \<open>A-Z\<close> and \<open>0-9\<close>, and the separator that follows it, which is a run of other
  characters, not empty unless the block is the last. Every text is such a sequence
  (\<open>words_and_separators_exist\<close> below).
\<close>

definition text_of :: "string \<Rightarrow> (string \<times> string) list \<Rightarrow> string" where
  "text_of lead blocks = lead @ concat (map (\<lambda>(w, x). w @ x) blocks)"

definition words_and_separators :: "string \<Rightarrow> (string \<times> string) list \<Rightarrow> bool" where
  "words_and_separators lead blocks \<longleftrightarrow>
     list_all (\<lambda>c. \<not> is_AZ09 c) lead
     \<and> list_all (\<lambda>(w, x). w \<noteq> [] \<and> list_all is_AZ09 w \<and> list_all (\<lambda>c. \<not> is_AZ09 c) x) blocks
     \<and> list_all (\<lambda>(w, x). x \<noteq> []) (butlast blocks)"

lemma replace_runs_word: "list_all is_AZ09 w \<Longrightarrow> replace_runs (w @ r) = w @ replace_runs r"
  by (induction w) simp_all

lemma replace_runs_separator:
  assumes "x \<noteq> []" and "list_all (\<lambda>c. \<not> is_AZ09 c) x" and "r = [] \<or> is_AZ09 (hd r)"
  shows "replace_runs (x @ r) = CHR ''-'' # replace_runs r"
proof -
  obtain c x' where x: "x = c # x'"
    using assms(1) by (cases x) simp_all
  have "dropWhile (\<lambda>d. \<not> is_AZ09 d) (x' @ r) = dropWhile (\<lambda>d. \<not> is_AZ09 d) r"
    using assms(2) x by (simp add: list_all_iff)
  also have "\<dots> = r"
    using assms(3) by (cases r) simp_all
  finally show ?thesis
    using assms(2) x by simp
qed

lemma blocks_start:
  assumes "list_all (\<lambda>(w, x). w \<noteq> [] \<and> list_all is_AZ09 w \<and> list_all (\<lambda>c. \<not> is_AZ09 c) x) blocks"
  shows "concat (map (\<lambda>(w, x). w @ x) blocks) = [] \<or> is_AZ09 (hd (concat (map (\<lambda>(w, x). w @ x) blocks)))"
proof (cases blocks)
  case Nil
  then show ?thesis by simp
next
  case (Cons b bs)
  obtain w x where b: "b = (w, x)" by (cases b)
  then obtain c w' where w: "w = c # w'" "is_AZ09 c"
    using assms Cons by (cases w) simp_all
  then show ?thesis
    using Cons b by simp
qed

lemma replace_runs_blocks:
  assumes "list_all (\<lambda>(w, x). w \<noteq> [] \<and> list_all is_AZ09 w \<and> list_all (\<lambda>c. \<not> is_AZ09 c) x) blocks"
    and "list_all (\<lambda>(w, x). x \<noteq> []) (butlast blocks)"
  shows "replace_runs (concat (map (\<lambda>(w, x). w @ x) blocks)) =
           join ''-'' (map fst blocks) @ (if blocks \<noteq> [] \<and> snd (last blocks) \<noteq> [] then ''-'' else [])"
  using assms
proof (induction blocks)
  case Nil
  then show ?case by simp
next
  case (Cons b bs)
  obtain w x where b: "b = (w, x)" by (cases b)
  have w: "list_all is_AZ09 w" and x: "list_all (\<lambda>c. \<not> is_AZ09 c) x"
    using Cons.prems(1) b by simp_all
  show ?case
  proof (cases bs)
    case Nil
    show ?thesis
    proof (cases "x = []")
      case True
      then show ?thesis
        using Nil b replace_runs_word [OF w, of "[]"] by simp
    next
      case False
      have "replace_runs (x @ []) = CHR ''-'' # replace_runs []"
        using False x by (intro replace_runs_separator) simp_all
      then show ?thesis
        using Nil b False replace_runs_word [OF w, of x] by simp
    qed
  next
    case (Cons b' bs')
    let ?rest = "concat (map (\<lambda>(w, x). w @ x) bs)"
    have wf: "list_all (\<lambda>(w, x). w \<noteq> [] \<and> list_all is_AZ09 w \<and> list_all (\<lambda>c. \<not> is_AZ09 c) x) bs"
      using Cons.prems(1) by simp
    have ne: "x \<noteq> []" and bl: "list_all (\<lambda>(w, x). x \<noteq> []) (butlast bs)"
      using Cons.prems(2) b Cons by simp_all
    have ih: "replace_runs ?rest =
        join ''-'' (map fst bs) @ (if bs \<noteq> [] \<and> snd (last bs) \<noteq> [] then ''-'' else [])"
      using wf bl by (rule Cons.IH)
    have "replace_runs (w @ x @ ?rest) = w @ replace_runs (x @ ?rest)"
      using w by (rule replace_runs_word)
    also have "replace_runs (x @ ?rest) = CHR ''-'' # replace_runs ?rest"
      using ne x blocks_start [OF wf] by (rule replace_runs_separator)
    finally have "replace_runs (w @ x @ ?rest) = w @ CHR ''-'' # replace_runs ?rest" .
    then show ?thesis
      using ih b Cons by simp
  qed
qed

lemma list_all_ends: "w \<noteq> [] \<Longrightarrow> list_all P w \<Longrightarrow> P (hd w) \<and> P (last w)"
  by (simp add: list_all_iff)

lemma join_words_ends:
  assumes "ws \<noteq> []" and "list_all (\<lambda>w. w \<noteq> [] \<and> list_all is_AZ09 w) ws"
  shows "join ''-'' ws \<noteq> [] \<and> is_AZ09 (hd (join ''-'' ws)) \<and> is_AZ09 (last (join ''-'' ws))"
  using assms
proof (induction "''-''" ws rule: join.induct)
  case 1
  then show ?case by simp
next
  case (2 x)
  then show ?case
    using list_all_ends [of x is_AZ09] by simp
next
  case (3 x y ys)
  then have ih: "join ''-'' (y # ys) \<noteq> []" "is_AZ09 (last (join ''-'' (y # ys)))"
    by simp_all
  have x: "x \<noteq> []" "is_AZ09 (hd x)"
    using "3.prems"(2) list_all_ends [of x is_AZ09] by simp_all
  show ?case
    using ih x by (simp add: hd_append)
qed

lemma not_AZ09_hyphen: "\<not> is_AZ09 (CHR ''-'')"
  by (simp add: is_AZ09_def)

lemma trim_hyphens_core:
  assumes "set h1 \<subseteq> {CHR ''-''}" and "set h2 \<subseteq> {CHR ''-''}"
    and "core = [] \<or> hd core \<noteq> CHR ''-'' \<and> last core \<noteq> CHR ''-''"
  shows "trim_hyphens (h1 @ core @ h2) = core"
proof (cases "core = []")
  case True
  have 0: "dropWhile (\<lambda>c. c = CHR ''-'') (h1 @ [] @ h2) = []"
    using assms(1,2) by auto
  show ?thesis
    unfolding True trim_hyphens_def 0 by simp
next
  case False
  then obtain c cs where c: "core = c # cs" "c \<noteq> CHR ''-''"
    using assms(3) by (cases core) auto
  obtain ds d where d: "core = ds @ [d]" "d \<noteq> CHR ''-''"
    using assms(3) False by (cases core rule: rev_cases) auto
  have "dropWhile (\<lambda>c. c = CHR ''-'') (h1 @ core @ h2) = dropWhile (\<lambda>c. c = CHR ''-'') (core @ h2)"
    using assms(1) by (intro dropWhile_append2) auto
  also have "\<dots> = core @ h2"
    using c by simp
  finally have 1: "dropWhile (\<lambda>c. c = CHR ''-'') (h1 @ core @ h2) = core @ h2" .
  have "dropWhile (\<lambda>c. c = CHR ''-'') (rev h2 @ rev core) = dropWhile (\<lambda>c. c = CHR ''-'') (rev core)"
    using assms(2) by (intro dropWhile_append2) auto
  also have "\<dots> = rev core"
    using d by simp
  finally have 2: "dropWhile (\<lambda>c. c = CHR ''-'') (rev (core @ h2)) = rev core"
    by simp
  show ?thesis
    by (simp only: trim_hyphens_def 1 2 rev_rev_ident)
qed

text \<open>
  What \<open>slugify\<close> makes of a text whose upper-cased form, marks removed, is a sequence
  of words and separators: the words, joined by single hyphens, cut to 32 characters.
\<close>

lemma slugify_words:
  assumes "toUpperCase pf (strip_marks pf (normalize pf ''NFKD'' str)) = text_of lead blocks"
    and "words_and_separators lead blocks"
  shows "slugify pf str = take 32 (join ''-'' (map fst blocks))"
proof -
  let ?body = "concat (map (\<lambda>(w, x). w @ x) blocks)"
  let ?core = "join ''-'' (map fst blocks)"
  let ?h1 = "if lead \<noteq> [] then ''-'' else []"
  let ?h2 = "if blocks \<noteq> [] \<and> snd (last blocks) \<noteq> [] then ''-'' else []"
  have wf: "list_all (\<lambda>c. \<not> is_AZ09 c) lead"
    "list_all (\<lambda>(w, x). w \<noteq> [] \<and> list_all is_AZ09 w \<and> list_all (\<lambda>c. \<not> is_AZ09 c) x) blocks"
    "list_all (\<lambda>(w, x). x \<noteq> []) (butlast blocks)"
    using assms(2) by (simp_all add: words_and_separators_def)
  have body: "replace_runs ?body = ?core @ ?h2"
    using wf(2,3) by (rule replace_runs_blocks)
  have "replace_runs (lead @ ?body) = ?h1 @ replace_runs ?body"
  proof (cases "lead = []")
    case True
    then show ?thesis by simp
  next
    case False
    then have "replace_runs (lead @ ?body) = CHR ''-'' # replace_runs ?body"
      using wf(1) blocks_start [OF wf(2)] by (rule replace_runs_separator)
    then show ?thesis
      using False by simp
  qed
  then have runs: "replace_runs (text_of lead blocks) = ?h1 @ ?core @ ?h2"
    by (simp only: text_of_def body)
  have core: "?core = [] \<or> hd ?core \<noteq> CHR ''-'' \<and> last ?core \<noteq> CHR ''-''"
  proof (cases "blocks = []")
    case True
    then show ?thesis by simp
  next
    case False
    have "list_all (\<lambda>w. w \<noteq> [] \<and> list_all is_AZ09 w) (map fst blocks)"
      using wf(2) by (simp add: list_all_iff case_prod_beta)
    then have "is_AZ09 (hd ?core) \<and> is_AZ09 (last ?core)"
      using False join_words_ends [of "map fst blocks"] by simp
    then show ?thesis
      using not_AZ09_hyphen by metis
  qed
  have "trim_hyphens (?h1 @ ?core @ ?h2) = ?core"
    using core by (intro trim_hyphens_core) auto
  then show ?thesis
    by (simp only: slugify_def assms(1) runs)
qed

text \<open>Every text is a sequence of words and separators.\<close>

lemma words_and_separators_exist: "\<exists>lead blocks. u = text_of lead blocks \<and> words_and_separators lead blocks"
proof (induction u rule: rev_induct)
  case Nil
  have "[] = text_of [] [] \<and> words_and_separators [] []"
    by (simp add: text_of_def words_and_separators_def)
  then show ?case by blast
next
  case (snoc c u)
  then obtain lead blocks where u: "u = text_of lead blocks" and wf: "words_and_separators lead blocks"
    by blast
  show ?case
  proof (cases blocks rule: rev_cases)
    case Nil
    show ?thesis
    proof (cases "is_AZ09 c")
      case True
      have "u @ [c] = text_of lead [([c], [])] \<and> words_and_separators lead [([c], [])]"
        using u wf Nil True by (simp add: text_of_def words_and_separators_def)
      then show ?thesis by blast
    next
      case False
      have "u @ [c] = text_of (lead @ [c]) [] \<and> words_and_separators (lead @ [c]) []"
        using u wf Nil False by (simp add: text_of_def words_and_separators_def)
      then show ?thesis by blast
    qed
  next
    case (snoc bs b)
    obtain w x where b: "b = (w, x)" by (cases b)
    show ?thesis
    proof (cases "is_AZ09 c")
      case True
      show ?thesis
      proof (cases "x = []")
        case e: True
        have "u @ [c] = text_of lead (bs @ [(w @ [c], [])]) \<and> words_and_separators lead (bs @ [(w @ [c], [])])"
          using u wf snoc b True e by (simp add: text_of_def words_and_separators_def)
        then show ?thesis by blast
      next
        case ne: False
        have "u @ [c] = text_of lead (bs @ [(w, x), ([c], [])])
            \<and> words_and_separators lead (bs @ [(w, x), ([c], [])])"
          using u wf snoc b True ne by (simp add: text_of_def words_and_separators_def butlast_append)
        then show ?thesis by blast
      qed
    next
      case False
      have "u @ [c] = text_of lead (bs @ [(w, x @ [c])]) \<and> words_and_separators lead (bs @ [(w, x @ [c])])"
        using u wf snoc b False by (simp add: text_of_def words_and_separators_def)
      then show ?thesis by blast
    qed
  qed
qed


text \<open>
  Claim C7. POST /api/sites with a name. Take the name decomposed by
  \<open>normalize("NFKD")\<close>, its combining marks removed, upper-cased, and read that text as
  words (runs of \<open>A-Z\<close> and \<open>0-9\<close>) and separators (runs of other characters). Then the
  slug of the name is the words joined by single hyphens, with no hyphen at either end,
  cut to its first 32 characters. The code stored is the one \<open>generateUniqueCode\<close>
  returns for that slug as base code (or for \<open>SITE\<close> when the slug is empty), the row is
  appended with that code, and the code is never one the table already holds. It is the
  base code when that is free; the base code with \<open>-2\<close> when the base code is taken and
  that one is free; the base code with \<open>-3\<close> when both are taken and that one is free.
\<close>

theorem site_codes:
  assumes "truthy (body ''name'')"
    and "toUpperCase pf (strip_marks pf (normalize pf ''NFKD'' (the (body ''name'')))) = text_of lead blocks"
    and "words_and_separators lead blocks"
    and "slug = take 32 (join ''-'' (map fst blocks))"
    and "b = (if slug \<noteq> [] then slug else ''SITE'')"
    and "codes = map site_code (tables s)"
  shows "slugify pf (the (body ''name'')) = slug
      \<and> (\<exists>c. post_sites pf None body s =
            (Json \<lparr>site_id = seq s, site_code = c, site_name = trim pf (the (body ''name''))\<rparr>,
             s\<lparr>tables := tables s @ [\<lparr>site_id = seq s, site_code = c, site_name = trim pf (the (body ''name''))\<rparr>],
               seq := seq s + 1\<rparr>)
          \<and> c = generateUniqueCode codes b
          \<and> c \<notin> set codes
          \<and> (b \<notin> set codes \<longrightarrow> c = b)
          \<and> (b \<in> set codes \<and> b @ ''-2'' \<notin> set codes \<longrightarrow> c = b @ ''-2'')
          \<and> (b \<in> set codes \<and> b @ ''-2'' \<in> set codes \<and> b @ ''-3'' \<notin> set codes \<longrightarrow> c = b @ ''-3''))"
proof -
  have slug: "slugify pf (the (body ''name'')) = slug"
    using assms(2,3) unfolding assms(4) by (rule slugify_words)
  have b: "b \<noteq> []"
    using assms(5) by (simp split: if_splits)
  let ?c = "generateUniqueCode codes b"
  have "post_sites pf None body s =
            (Json \<lparr>site_id = seq s, site_code = ?c, site_name = trim pf (the (body ''name''))\<rparr>,
             s\<lparr>tables := tables s @ [\<lparr>site_id = seq s, site_code = ?c, site_name = trim pf (the (body ''name''))\<rparr>],
               seq := seq s + 1\<rparr>)"
    using assms(1,5,6) by (simp add: post_sites_def slug Let_def)
  moreover have "?c \<notin> set codes"
    by (simp add: generateUniqueCode_def probe_fresh)
  moreover have "b \<notin> set codes \<longrightarrow> ?c = b"
    using b by (simp add: generateUniqueCode_free)
  moreover have "b \<in> set codes \<and> b @ ''-2'' \<notin> set codes \<longrightarrow> ?c = b @ ''-2''"
    using b by (simp add: generateUniqueCode_second)
  moreover have "b \<in> set codes \<and> b @ ''-2'' \<in> set codes \<and> b @ ''-3'' \<notin> set codes \<longrightarrow> ?c = b @ ''-3''"
    using b by (simp add: generateUniqueCode_third)
  ultimately show ?thesis
    using slug by blast
qed

subsection \<open>Sample names\<close>

text \<open>
  Three names, as bytes. The first reads " Sede  Nunoa / norte -- 2! " with a tilde on
  the capital N (\<open>0xC3 0x91\<close>) and on the small n (\<open>0xC3 0xB1\<close>): accents, blanks at
  both ends, runs of several separators. The second has a slug longer than 32
  characters. The third reads "Alpha" with an acute accent on the capital A
  (\<open>0xC3 0x81\<close>); it is posted three times.
\<close>

definition name_sede :: string where
  "name_sede = '' Sede  '' @ [CHR 0xC3, CHR 0x91] @ ''u'' @ [CHR 0xC3, CHR 0xB1] @ ''oa / norte -- 2! ''"

definition name_almacen :: string where
  "name_almacen = ''Almacen Central de Distribucion Norte''"

definition name_alpha :: string where
  "name_alpha = [CHR 0xC3, CHR 0x81] @ ''lpha''"

definition sites0 :: "site list pg" where
  "sites0 = \<lparr>tables = [], tx = None, seq = 1\<rparr>"

definition sites1 :: "site list pg" where
  "sites1 = snd (post_sites pf_es None (Map.empty(''name'' \<mapsto> name_alpha)) sites0)"

definition sites2 :: "site list pg" where
  "sites2 = snd (post_sites pf_es None (Map.empty(''name'' \<mapsto> name_alpha)) sites1)"

definition sites3 :: "site list pg" where
  "sites3 = snd (post_sites pf_es None (Map.empty(''name'' \<mapsto> name_alpha)) sites2)"

lemmas pf_es_simps =
  pf_es_def decomposed_def is_combining_def less_eq_char_def ascii_upper_def text_of_def
  words_and_separators_def is_AZ09_def truthy_def

lemma name_sede_text:
  "toUpperCase pf_es (strip_marks pf_es (normalize pf_es ''NFKD'' name_sede)) =
     text_of '' '' [(''SEDE'', ''  ''), (''NUNOA'', '' / ''), (''NORTE'', '' -- ''), (''2'', ''! '')]
   \<and> words_and_separators '' '' [(''SEDE'', ''  ''), (''NUNOA'', '' / ''), (''NORTE'', '' -- ''), (''2'', ''! '')]"
  by (simp add: name_sede_def pf_es_simps)

lemma name_almacen_text:
  "toUpperCase pf_es (strip_marks pf_es (normalize pf_es ''NFKD'' name_almacen)) =
     text_of [] [(''ALMACEN'', '' ''), (''CENTRAL'', '' ''), (''DE'', '' ''), (''DISTRIBUCION'', '' ''), (''NORTE'', [])]
   \<and> words_and_separators [] [(''ALMACEN'', '' ''), (''CENTRAL'', '' ''), (''DE'', '' ''), (''DISTRIBUCION'', '' ''), (''NORTE'', [])]"
  by (simp add: name_almacen_def pf_es_simps)

lemma name_alpha_text:
  "toUpperCase pf_es (strip_marks pf_es (normalize pf_es ''NFKD'' name_alpha)) = text_of [] [(''ALPHA'', [])]
   \<and> words_and_separators [] [(''ALPHA'', [])]"
  by (simp add: name_alpha_def pf_es_simps)

theorem site_codes_witness:
  "slugify pf_es name_sede = ''SEDE-NUNOA-NORTE-2''
   \<and> slugify pf_es name_almacen = ''ALMACEN-CENTRAL-DE-DISTRIBUCION-''
   \<and> slugify pf_es name_alpha = ''ALPHA''
   \<and> map site_code (tables sites1) = [''ALPHA'']
   \<and> map site_code (tables sites2) = [''ALPHA'', ''ALPHA-2'']
   \<and> map site_code (tables sites3) = [''ALPHA'', ''ALPHA-2'', ''ALPHA-3'']"
proof -
  have n: "name_sede \<noteq> []" "name_almacen \<noteq> []" "name_alpha \<noteq> []"
    by (simp_all add: name_sede_def name_almacen_def name_alpha_def)
  have c1: "slugify pf_es name_sede = ''SEDE-NUNOA-NORTE-2''"
    using site_codes [where body = "Map.empty(''name'' \<mapsto> name_sede)" and pf = pf_es and s = sites0
          and lead = "'' ''"
          and blocks = "[(''SEDE'', ''  ''), (''NUNOA'', '' / ''), (''NORTE'', '' -- ''), (''2'', ''! '')]"
          and slug = "''SEDE-NUNOA-NORTE-2''" and b = "''SEDE-NUNOA-NORTE-2''"
          and codes = "map site_code (tables sites0)"]
      name_sede_text n
    by (simp add: truthy_def)
  have c2: "slugify pf_es name_almacen = ''ALMACEN-CENTRAL-DE-DISTRIBUCION-''"
    using site_codes [where body = "Map.empty(''name'' \<mapsto> name_almacen)" and pf = pf_es and s = sites0
          and lead = "[]"
          and blocks = "[(''ALMACEN'', '' ''), (''CENTRAL'', '' ''), (''DE'', '' ''), (''DISTRIBUCION'', '' ''), (''NORTE'', [])]"
          and slug = "''ALMACEN-CENTRAL-DE-DISTRIBUCION-''" and b = "''ALMACEN-CENTRAL-DE-DISTRIBUCION-''"
          and codes = "map site_code (tables sites0)"]
      name_almacen_text n
    by (simp add: truthy_def)
  note alpha = site_codes [where body = "Map.empty(''name'' \<mapsto> name_alpha)" and pf = pf_es
          and lead = "[]" and blocks = "[(''ALPHA'', [])]" and slug = "''ALPHA''" and b = "''ALPHA''"]
  have c3: "slugify pf_es name_alpha = ''ALPHA''"
    using alpha [where s = sites0 and codes = "map site_code (tables sites0)"] name_alpha_text n
    by (simp add: truthy_def)
  have s1: "map site_code (tables sites1) = [''ALPHA'']"
    using alpha [where s = sites0 and codes = "map site_code (tables sites0)"] name_alpha_text n
    by (auto simp: truthy_def sites1_def sites0_def)
  have s2: "map site_code (tables sites2) = [''ALPHA'', ''ALPHA-2'']"
    using alpha [where s = sites1 and codes = "map site_code (tables sites1)"] name_alpha_text n s1
    by (auto simp: truthy_def sites2_def)
  have s3: "map site_code (tables sites3) = [''ALPHA'', ''ALPHA-2'', ''ALPHA-3'']"
    using alpha [where s = sites2 and codes = "map site_code (tables sites2)"] name_alpha_text n s2
    by (auto simp: truthy_def sites3_def)
  show ?thesis
    using c1 c2 c3 s1 s2 s3 by simp
qed

section \<open>The tax regime of the employer, effective-dated\<close>

text \<open>
  The tables the handlers of /api/employer/tax read and write. A date is the number of
  its day. The handlers send dates as text: \<open>DATE\<close>, a parameter, is how PostgreSQL reads
  the text of a parameter of type date (\<open>None\<close> when it refuses the text).
\<close>

record employer =
  emp_id :: int
  ruc :: string
  emp_name :: string

record regime =
  regime_id :: int
  regime_code :: string
  regime_name :: string

record period =
  eth_id :: int
  employer_id :: int
  eth_regime_id :: int
  valid_from :: int
  valid_to :: "int option"

record tax_tables =
  employers :: "employer list"
  regimes_tax :: "regime list"
  employer_tax_history :: "period list"

text \<open>The row the handlers answer: a period joined with its regime.\<close>

record tax_row =
  tr_id :: int
  tr_valid_from :: int
  tr_valid_to :: "int option"
  tr_code :: string
  tr_name :: string

text \<open>
  \<open>SELECT id FROM employers ORDER BY id ASC LIMIT 1\<close>, then \<open>r.rows[0]?.id || null\<close>: no
  row, or the id 0, is \<open>null\<close>.
\<close>

definition getEmployerIdOrNull :: "tax_tables \<Rightarrow> int option" where
  "getEmployerIdOrNull t =
     (case sort (map emp_id (employers t)) of
        [] \<Rightarrow> None
      | i # _ \<Rightarrow> if i = 0 then None else Some i)"

text \<open>\<open>... FROM employer_tax_history eth JOIN regimes_tax rt ON rt.id = eth.regime_id\<close>, for one period.\<close>

definition join_regime :: "tax_tables \<Rightarrow> period \<Rightarrow> tax_row list" where
  "join_regime t p =
     map (\<lambda>rt. \<lparr>tr_id = eth_id p, tr_valid_from = valid_from p, tr_valid_to = valid_to p,
                tr_code = regime_code rt, tr_name = regime_name rt\<rparr>)
       (filter (\<lambda>rt. regime_id rt = eth_regime_id p) (regimes_tax t))"

text \<open>\<open>ORDER BY valid_from DESC\<close>.\<close>

definition ORDER_BY_valid_from_DESC :: "period list \<Rightarrow> period list" where
  "ORDER_BY_valid_from_DESC ps = rev (sort_key valid_from ps)"

definition invalid_datetime_format :: js_error where
  "invalid_datetime_format = JsError (Some ''22007'')"

definition syntax_error :: js_error where
  "syntax_error = JsError (Some ''42601'')"

text \<open>
  \<open>UPDATE employer_tax_history SET valid_to = (DATE $2 - INTERVAL '1 day')::date
  WHERE id = $1 AND valid_to IS NULL\<close>, with the parameters \<open>[prev.rows[0].id, vf]\<close>.
  PostgreSQL reads a type name before a value, as in \<open>DATE '2024-07-01'\<close>, only when the
  value is a string constant written in the statement. Before the parameter \<open>$2\<close> it is a
  syntax error (SQLSTATE 42601): the statement is refused when it is parsed, whatever the
  id and the date, and no row is written.
\<close>

definition close_period :: "int \<Rightarrow> string \<Rightarrow> tax_tables pg \<Rightarrow> js_error + tax_tables pg" where
  "close_period prev_id vf s = Inl syntax_error"

text \<open>
  \<open>INSERT INTO employer_tax_history (employer_id, regime_id, valid_from, valid_to)
  VALUES ($1,$2,$3,NULL) RETURNING id\<close>. The text of \<open>$3\<close> is read as a date when the
  parameters are bound, before the statement runs: a text that is no date draws no id
  from the sequence. Otherwise the id comes from the sequence.
\<close>

definition open_period ::
  "(string \<Rightarrow> int option) \<Rightarrow> int \<Rightarrow> int \<Rightarrow> string \<Rightarrow> tax_tables pg \<Rightarrow> (js_error + int) \<times> tax_tables pg" where
  "open_period DATE empId regimeId vf s =
     (case DATE vf of
        None \<Rightarrow> (Inl invalid_datetime_format, s)
      | Some d \<Rightarrow>
          (Inr (seq s),
           pg_write (\<lambda>t. t\<lparr>employer_tax_history := employer_tax_history t @
              [\<lparr>eth_id = seq s, employer_id = empId, eth_regime_id = regimeId,
                valid_from = d, valid_to = None\<rparr>]\<rparr>) (s\<lparr>seq := seq s + 1\<rparr>)))"

text \<open>
  POST /api/employer/tax. \<open>today\<close> is \<open>new Date().toISOString().slice(0,10)\<close>. The answer
  is \<open>cur.rows[0]\<close>, which is \<open>undefined\<close> (\<open>None\<close>) when the last query finds no row.
\<close>

definition post_employer_tax ::
  "(string \<Rightarrow> int option) \<Rightarrow> string \<Rightarrow> jsobj \<Rightarrow> tax_tables pg \<Rightarrow> tax_row option response \<times> tax_tables pg" where
  "post_employer_tax DATE today body s =
     (case getEmployerIdOrNull (tables s) of
        None \<Rightarrow> (Status 400, s)
      | Some empId \<Rightarrow>
          if \<not> truthy (body ''regime_code'') then (Status 400, s)
          else
            (case filter (\<lambda>rt. regime_code rt = the (body ''regime_code'')) (regimes_tax (visible s)) of
               [] \<Rightarrow> (Status 400, s)
             | r # _ \<Rightarrow>
                 (let regimeId = regime_id r;
                      vf = (if truthy (body ''valid_from'') then the (body ''valid_from'') else today);
                      s1 = BEGIN s;
                      prev = ORDER_BY_valid_from_DESC
                               (filter (\<lambda>p. employer_id p = empId \<and> valid_to p = None)
                                  (employer_tax_history (visible s1)))
                  in case (case prev of [] \<Rightarrow> Inr s1 | p # _ \<Rightarrow> close_period (eth_id p) vf s1) of
                       Inl e \<Rightarrow> (Status 500, ROLLBACK s1)
                     | Inr s2 \<Rightarrow>
                         (case open_period DATE empId regimeId vf s2 of
                            (Inl e, s3) \<Rightarrow> (Status 500, ROLLBACK s3)
                          | (Inr new_id, s3) \<Rightarrow>
                              (let s4 = COMMIT s3;
                                   cur = concat (map (join_regime (tables s4))
                                           (filter (\<lambda>p. eth_id p = new_id) (employer_tax_history (tables s4))))
                               in (Json (case cur of [] \<Rightarrow> None | row # _ \<Rightarrow> Some row), s4))))))"

text \<open>GET /api/employer/tax/history.\<close>

definition get_employer_tax_history :: "tax_tables pg \<Rightarrow> tax_row list response" where
  "get_employer_tax_history s =
     (case getEmployerIdOrNull (tables s) of
        None \<Rightarrow> Status 400
      | Some empId \<Rightarrow>
          Json (concat (map (join_regime (tables s))
                  (ORDER_BY_valid_from_DESC
                     (filter (\<lambda>p. employer_id p = empId) (employer_tax_history (tables s)))))))"

text \<open>A sequence of calls, each with the day it runs on and its body; the answers in order.\<close>

fun post_all ::
  "(string \<Rightarrow> int option) \<Rightarrow> (string \<times> jsobj) list \<Rightarrow> tax_tables pg \<Rightarrow> tax_row option response list \<times> tax_tables pg" where
  "post_all DATE [] s = ([], s)"
| "post_all DATE ((today, body) # calls) s =
     (case post_employer_tax DATE today body s of
        (r, s') \<Rightarrow> (case post_all DATE calls s' of (rs, s'') \<Rightarrow> (r # rs, s'')))"

subsection \<open>A call while a period is open\<close>

lemma BEGIN_fresh: "tx s = None \<Longrightarrow> BEGIN s = s\<lparr>tx := Some (tables s)\<rparr>"
  by (simp add: BEGIN_def)

lemma ORDER_BY_valid_from_DESC_Nil: "ORDER_BY_valid_from_DESC ps = [] \<longleftrightarrow> ps = []"
proof -
  have "length (ORDER_BY_valid_from_DESC ps) = length ps"
    by (simp add: ORDER_BY_valid_from_DESC_def)
  then show ?thesis
    by (metis length_0_conv)
qed

text \<open>
  Whenever the employer has an open period, the handler reaches the \<open>UPDATE\<close> or answers
  400 before it: the call answers 400 or 500, and the tables and the sequence are as they
  were.
\<close>

lemma post_employer_tax_open_period:
  assumes "tx s = None"
    and "getEmployerIdOrNull (tables s) = Some e"
    and "p \<in> set (employer_tax_history (tables s))"
    and "employer_id p = e" and "valid_to p = None"
  shows "fst (post_employer_tax DATE today body s) \<in> {Status 400, Status 500}
    \<and> snd (post_employer_tax DATE today body s) = s"
proof -
  let ?open = "filter (\<lambda>p. employer_id p = e \<and> valid_to p = None) (employer_tax_history (tables s))"
  have "p \<in> set ?open"
    using assms(3-5) by simp
  then have "?open \<noteq> []"
    by (metis empty_iff list.set(1))
  then have "ORDER_BY_valid_from_DESC ?open \<noteq> []"
    by (simp add: ORDER_BY_valid_from_DESC_Nil)
  then obtain q qs where q: "ORDER_BY_valid_from_DESC ?open = q # qs"
    by (cases "ORDER_BY_valid_from_DESC ?open") simp_all
  have v: "visible (BEGIN s) = tables s" "visible s = tables s"
    using assms(1) by (simp_all add: BEGIN_def visible_def)
  have r: "ROLLBACK (BEGIN s) = s"
    using assms(1) by (simp add: BEGIN_def ROLLBACK_def)
  show ?thesis
    using assms(2) q
    by (simp add: post_employer_tax_def v r close_period_def Let_def split: list.split)
qed

text \<open>
  The first call, on a history with no open period of the employer, commits: it appends
  the open period and answers its row.
\<close>

lemma post_employer_tax_first:
  assumes "tx s = None"
    and "getEmployerIdOrNull (tables s) = Some e"
    and "filter (\<lambda>p. employer_id p = e \<and> valid_to p = None) (employer_tax_history (tables s)) = []"
    and "truthy (body ''regime_code'')"
    and "filter (\<lambda>rt. regime_code rt = the (body ''regime_code'')) (regimes_tax (tables s)) = r # rs"
    and "vf = (if truthy (body ''valid_from'') then the (body ''valid_from'') else today)"
    and "DATE vf = Some d"
  shows "snd (post_employer_tax DATE today body s) =
           s\<lparr>tables := (tables s)\<lparr>employer_tax_history := employer_tax_history (tables s) @
                [\<lparr>eth_id = seq s, employer_id = e, eth_regime_id = regime_id r,
                  valid_from = d, valid_to = None\<rparr>]\<rparr>,
             seq := seq s + 1\<rparr>
       \<and> (\<exists>row. fst (post_employer_tax DATE today body s) = Json row)"
proof -
  have v: "visible (BEGIN s) = tables s" "visible s = tables s"
    using assms(1) by (simp_all add: BEGIN_def visible_def)
  have o: "open_period DATE e (regime_id r) vf (BEGIN s) =
      (Inr (seq s),
       s\<lparr>tx := Some ((tables s)\<lparr>employer_tax_history := employer_tax_history (tables s) @
                [\<lparr>eth_id = seq s, employer_id = e, eth_regime_id = regime_id r,
                  valid_from = d, valid_to = None\<rparr>]\<rparr>),
         seq := seq s + 1\<rparr>)"
    using assms(1,7) by (simp add: open_period_def BEGIN_def pg_write_def)
  have "post_employer_tax DATE today body s =
      (case open_period DATE e (regime_id r) vf (BEGIN s) of
         (Inl e, s3) \<Rightarrow> (Status 500, ROLLBACK s3)
       | (Inr new_id, s3) \<Rightarrow>
           (let s4 = COMMIT s3;
                cur = concat (map (join_regime (tables s4))
                        (filter (\<lambda>p. eth_id p = new_id) (employer_tax_history (tables s4))))
            in (Json (case cur of [] \<Rightarrow> None | row # _ \<Rightarrow> Some row), s4)))"
    unfolding post_employer_tax_def Let_def v assms(2,3,5) assms(6) [symmetric]
    using assms(3,4) by (simp add: ORDER_BY_valid_from_DESC_def)
  then have "snd (post_employer_tax DATE today body s) =
           s\<lparr>tx := None,
             tables := (tables s)\<lparr>employer_tax_history := employer_tax_history (tables s) @
                [\<lparr>eth_id = seq s, employer_id = e, eth_regime_id = regime_id r,
                  valid_from = d, valid_to = None\<rparr>]\<rparr>,
             seq := seq s + 1\<rparr>"
    and j: "\<exists>row. fst (post_employer_tax DATE today body s) = Json row"
    unfolding o by (simp_all add: COMMIT_def Let_def)
  moreover have "s\<lparr>tx := None\<rparr> = s"
    using assms(1) by (intro pg.equality) simp_all
  ultimately show ?thesis
    by simp
qed

subsection \<open>Three calls on an empty history\<close>

text \<open>The dates of the example, as days since 1970-01-01.\<close>

definition DATE_example :: "string \<Rightarrow> int option" where
  "DATE_example = map_of [(''2024-01-01'', 19723), (''2024-07-01'', 19905), (''2025-01-01'', 20089)]"

definition tax0 :: "tax_tables pg" where
  "tax0 =
     \<lparr>tables =
        \<lparr>employers = [\<lparr>emp_id = 1, ruc = ''20100000001'', emp_name = ''ACME''\<rparr>],
         regimes_tax = [\<lparr>regime_id = 1, regime_code = ''MICRO'', regime_name = ''Microempresa''\<rparr>,
                        \<lparr>regime_id = 2, regime_code = ''GENERAL'', regime_name = ''General''\<rparr>],
         employer_tax_history = []\<rparr>,
      tx = None, seq = 1\<rparr>"

definition tax_calls :: "(string \<times> jsobj) list" where
  "tax_calls =
     [(''2024-01-01'', Map.empty(''regime_code'' \<mapsto> ''MICRO'')),
      (''2024-08-15'', Map.empty(''regime_code'' \<mapsto> ''GENERAL'', ''valid_from'' \<mapsto> ''2024-07-01'')),
      (''2025-01-01'', Map.empty(''regime_code'' \<mapsto> ''MICRO'', ''valid_from'' \<mapsto> ''2025-01-01''))]"

text \<open>
  Claim C1. Three POST /api/employer/tax calls for the one employer, on an empty
  history, with the effective dates 2024-01-01, 2024-07-01 and 2025-01-01. The first
  call answers the period it opened. The second and the third find that period open,
  send the \<open>UPDATE\<close> that PostgreSQL refuses, and answer 500 after the \<open>ROLLBACK\<close>: the
  history afterwards is the one row of the first call, still open, and that is what GET
  /api/employer/tax/history returns. There is no second row, and no period is ever
  closed on the eve of its successor.
\<close>

theorem second_tax_call_refused:
  "fst (post_all DATE_example tax_calls tax0) =
     [Json (Some \<lparr>tr_id = 1, tr_valid_from = 19723, tr_valid_to = None,
                  tr_code = ''MICRO'', tr_name = ''Microempresa''\<rparr>),
      Status 500, Status 500]
   \<and> employer_tax_history (tables (snd (post_all DATE_example tax_calls tax0))) =
       [\<lparr>eth_id = 1, employer_id = 1, eth_regime_id = 1, valid_from = 19723, valid_to = None\<rparr>]
   \<and> seq (snd (post_all DATE_example tax_calls tax0)) = 2
   \<and> get_employer_tax_history (snd (post_all DATE_example tax_calls tax0)) =
       Json [\<lparr>tr_id = 1, tr_valid_from = 19723, tr_valid_to = None,
              tr_code = ''MICRO'', tr_name = ''Microempresa''\<rparr>]"
  by (simp add: tax_calls_def tax0_def DATE_example_def post_employer_tax_def
      getEmployerIdOrNull_def truthy_def visible_def BEGIN_def COMMIT_def ROLLBACK_def pg_write_def
      ORDER_BY_valid_from_DESC_def close_period_def open_period_def join_regime_def
      get_employer_tax_history_def Let_def)

end
